theory Spec2Isabelle
  imports Main "HOL-Library.Word" "HOL-Library.Sublist"
begin

unbundle bit_operations_syntax

section \<open>The electron IPC transform of \<^verbatim>\<open>unplugin-electron-ipc/src/index.ts\<close>\<close>

text \<open>
  The plugin rewrites files named \<^verbatim>\<open>*.main.ipc.(ts|js)\<close> and \<^verbatim>\<open>*.renderer.ipc.(ts|js)\<close>.
  Its \<^verbatim>\<open>transform\<close> parses the file with the TypeScript compiler, collects the
  exported functions, and edits the text through a MagicString.

  Modelling decisions.
  \<^item> A JavaScript string is a \<^typ>\<open>string\<close>: one \<^typ>\<open>char\<close> per UTF-16 code unit, for
    texts whose code units are below 256 (ASCII and Latin-1). Offsets count code units.
  \<^item> The TypeScript parser, MagicString, \<^verbatim>\<open>node:path\<close> and \<^verbatim>\<open>node:crypto\<close> are
    libraries outside the repository. The parser's result is an input of the model (a
    tree with the fields that \<^verbatim>\<open>transform\<close> reads); the other three are modelled after
    their documented behaviour.
  \<^item> A thrown exception is the \<open>Inl\<close> branch of a sum.
  \<^item> The source map (\<^verbatim>\<open>generateMap\<close>) is not modelled.
\<close>

subsection \<open>Strings\<close>

definition dq :: string where
  "dq = [CHR 0x22]"

definition sq :: string where
  "sq = [CHR 0x27]"

definition nl :: string where
  "nl = [CHR 0x0A]"

text \<open>\<^verbatim>\<open>s.slice(a, b)\<close> for non-negative \<open>a\<close> and \<open>b\<close>: both ends are clamped to the
  length, and the result is empty when \<open>b \<le> a\<close>.\<close>

definition slice :: "nat \<Rightarrow> nat \<Rightarrow> 'a list \<Rightarrow> 'a list" where
  "slice a b xs = take (b - a) (drop a xs)"

text \<open>\<^verbatim>\<open>xs.join(sep)\<close>.\<close>

fun join :: "string \<Rightarrow> string list \<Rightarrow> string" where
  "join sep [] = []"
| "join sep [x] = x"
| "join sep (x # y # ys) = x @ sep @ join sep (y # ys)"

subsection \<open>File roles: \<^verbatim>\<open>transformInclude\<close> (lines 35-57)\<close>

datatype ipc_context = CtxMain | CtxRenderer

text \<open>The three regular expressions end in \<^verbatim>\<open>$\<close> and carry no flag, so each is a test
  on the end of the whole id (\<open>file_id\<close> here, as \<open>id\<close> is HOL's identity): \<^verbatim>\<open>/\.ipc\.(t|j)s$/\<close>, \<^verbatim>\<open>/\.main\.ipc\.(t|j)s$/\<close> and
  \<^verbatim>\<open>/\.renderer\.ipc\.(t|j)s$/\<close>.\<close>

definition isIpcFile :: "string \<Rightarrow> bool" where
  "isIpcFile file_id = (suffix ''.ipc.ts'' file_id \<or> suffix ''.ipc.js'' file_id)"

definition isMainIpcFile :: "string \<Rightarrow> bool" where
  "isMainIpcFile file_id = (suffix ''.main.ipc.ts'' file_id \<or> suffix ''.main.ipc.js'' file_id)"

definition isRendererIpcFile :: "string \<Rightarrow> bool" where
  "isRendererIpcFile file_id = (suffix ''.renderer.ipc.ts'' file_id \<or> suffix ''.renderer.ipc.js'' file_id)"

definition transformInclude :: "ipc_context \<Rightarrow> string \<Rightarrow> bool" where
  "transformInclude ctx file_id =
     (if \<not> isIpcFile file_id then False
      else
        let shouldTransform =
              (ctx = CtxMain \<and> (isMainIpcFile file_id \<or> isRendererIpcFile file_id)) \<or>
              (ctx = CtxRenderer \<and> (isMainIpcFile file_id \<or> isRendererIpcFile file_id))
        in if \<not> shouldTransform then False else True)"

subsection \<open>\<^verbatim>\<open>createHashForText\<close> (lines 12-14)\<close>

text \<open>\<^verbatim>\<open>crypto.createHash("sha256").update(text).digest("hex").slice(0, 12)\<close>.
  \<^verbatim>\<open>update\<close> hashes the UTF-8 encoding of the string; a code unit below 128 is one
  byte, one from 128 to 255 is two. SHA-256 follows FIPS 180-4; its constants (the first 32 bits of the fractional parts
  of the cube roots of the first 64 primes, and of the square roots of the first 8) are
  written in decimal.\<close>

type_synonym byte = "8 word"
type_synonym u32 = "32 word"

definition utf8_char :: "char \<Rightarrow> byte list" where
  "utf8_char c = (let n = (of_char c :: nat) in
     if n < 128 then [of_nat n] else [of_nat (192 + n div 64), of_nat (128 + n mod 64)])"

definition utf8_encode :: "string \<Rightarrow> byte list" where
  "utf8_encode s = concat (map utf8_char s)"

definition rotr :: "nat \<Rightarrow> u32 \<Rightarrow> u32" where
  "rotr n x = drop_bit n x OR push_bit (32 - n) x"

definition Ch :: "u32 \<Rightarrow> u32 \<Rightarrow> u32 \<Rightarrow> u32" where
  "Ch x y z = (x AND y) XOR (NOT x AND z)"

definition Maj :: "u32 \<Rightarrow> u32 \<Rightarrow> u32 \<Rightarrow> u32" where
  "Maj x y z = (x AND y) XOR (x AND z) XOR (y AND z)"

definition Sigma0 :: "u32 \<Rightarrow> u32" where
  "Sigma0 x = rotr 2 x XOR rotr 13 x XOR rotr 22 x"

definition Sigma1 :: "u32 \<Rightarrow> u32" where
  "Sigma1 x = rotr 6 x XOR rotr 11 x XOR rotr 25 x"

definition sigma0 :: "u32 \<Rightarrow> u32" where
  "sigma0 x = rotr 7 x XOR rotr 18 x XOR drop_bit 3 x"

definition sigma1 :: "u32 \<Rightarrow> u32" where
  "sigma1 x = rotr 17 x XOR rotr 19 x XOR drop_bit 10 x"

definition K256 :: "u32 list" where
  "K256 = [
    1116352408, 1899447441, 3049323471, 3921009573,
    961987163, 1508970993, 2453635748, 2870763221,
    3624381080, 310598401, 607225278, 1426881987,
    1925078388, 2162078206, 2614888103, 3248222580,
    3835390401, 4022224774, 264347078, 604807628,
    770255983, 1249150122, 1555081692, 1996064986,
    2554220882, 2821834349, 2952996808, 3210313671,
    3336571891, 3584528711, 113926993, 338241895,
    666307205, 773529912, 1294757372, 1396182291,
    1695183700, 1986661051, 2177026350, 2456956037,
    2730485921, 2820302411, 3259730800, 3345764771,
    3516065817, 3600352804, 4094571909, 275423344,
    430227734, 506948616, 659060556, 883997877,
    958139571, 1322822218, 1537002063, 1747873779,
    1955562222, 2024104815, 2227730452, 2361852424,
    2428436474, 2756734187, 3204031479, 3329325298]"

type_synonym sha_state = "u32 \<times> u32 \<times> u32 \<times> u32 \<times> u32 \<times> u32 \<times> u32 \<times> u32"

definition H256 :: sha_state where
  "H256 = (1779033703, 3144134277, 1013904242, 2773480762,
           1359893119, 2600822924, 528734635, 1541459225)"

definition sha_pad :: "byte list \<Rightarrow> byte list" where
  "sha_pad m = m @ [0x80] @ replicate ((119 - length m mod 64) mod 64) 0 @
     map (\<lambda>i. ucast (drop_bit (8 * (7 - i)) (word_of_nat (8 * length m) :: 64 word))) [0..<8]"

definition be32 :: "byte list \<Rightarrow> u32" where
  "be32 bs = foldl (\<lambda>acc b. push_bit 8 acc OR ucast b) 0 (take 4 bs)"

fun words_of :: "nat \<Rightarrow> byte list \<Rightarrow> u32 list" where
  "words_of 0 bs = []"
| "words_of (Suc n) bs = be32 bs # words_of n (drop 4 bs)"

fun blocks_of :: "nat \<Rightarrow> byte list \<Rightarrow> byte list list" where
  "blocks_of 0 bs = []"
| "blocks_of (Suc n) bs = take 64 bs # blocks_of n (drop 64 bs)"

fun schedule :: "nat \<Rightarrow> u32 list \<Rightarrow> u32 list" where
  "schedule 0 w = w"
| "schedule (Suc n) w =
     (let t = length w in
      schedule n (w @ [sigma1 (w ! (t - 2)) + w ! (t - 7) + sigma0 (w ! (t - 15)) + w ! (t - 16)]))"

fun sha_round :: "sha_state \<Rightarrow> u32 \<times> u32 \<Rightarrow> sha_state" where
  "sha_round (a, b, c, d, e, f, g, h) (k, w) =
     (let t1 = h + Sigma1 e + Ch e f g + k + w;
          t2 = Sigma0 a + Maj a b c
      in (t1 + t2, a, b, c, d + t1, e, f, g))"

fun sha_add :: "sha_state \<Rightarrow> sha_state \<Rightarrow> sha_state" where
  "sha_add (a, b, c, d, e, f, g, h) (a', b', c', d', e', f', g', h') =
     (a + a', b + b', c + c', d + d', e + e', f + f', g + g', h + h')"

definition sha_compress :: "sha_state \<Rightarrow> byte list \<Rightarrow> sha_state" where
  "sha_compress st block =
     sha_add st (foldl sha_round st (zip K256 (schedule 48 (words_of 16 block))))"

definition bytes_of_u32 :: "u32 \<Rightarrow> byte list" where
  "bytes_of_u32 w = [ucast (drop_bit 24 w), ucast (drop_bit 16 w), ucast (drop_bit 8 w), ucast w]"

fun sha_output :: "sha_state \<Rightarrow> byte list" where
  "sha_output (a, b, c, d, e, f, g, h) = concat (map bytes_of_u32 [a, b, c, d, e, f, g, h])"

definition sha256 :: "byte list \<Rightarrow> byte list" where
  "sha256 m = (let p = sha_pad m in
     sha_output (foldl sha_compress H256 (blocks_of (length p div 64) p)))"

definition hex_digit :: "nat \<Rightarrow> char" where
  "hex_digit n = ''0123456789abcdef'' ! (n mod 16)"

definition hex_of_byte :: "byte \<Rightarrow> string" where
  "hex_of_byte b = [hex_digit (unat b div 16), hex_digit (unat b mod 16)]"

definition digest_hex :: "byte list \<Rightarrow> string" where
  "digest_hex bs = concat (map hex_of_byte bs)"

definition createHashForText :: "string \<Rightarrow> string" where
  "createHashForText text = slice 0 12 (digest_hex (sha256 (utf8_encode text)))"

subsection \<open>The parser's result\<close>

text \<open>\<^verbatim>\<open>ts.createSourceFile\<close> is the TypeScript compiler's parser. The model takes its
  result as given: a tree of nodes, each with the modifiers the parser attached
  (\<^verbatim>\<open>node.modifiers\<close>, empty when the node has none or cannot have any), the span
  \<^verbatim>\<open>pos\<close>..\<^verbatim>\<open>end\<close> (\<^verbatim>\<open>pos\<close> includes the blanks and comments before the node)
  and the children that \<^verbatim>\<open>ts.forEachChild\<close> visits, in its order. A node's kind carries
  the fields that \<^verbatim>\<open>transform\<close> reads from it.\<close>

datatype modifier = ExportKeyword | DefaultKeyword | AsyncKeyword | OtherModifier

datatype init_kind = ArrowFunction | FunctionExpression | OtherExpression

text \<open>The initializer of a variable declaration: what \<^verbatim>\<open>ts.isArrowFunction\<close> and
  \<^verbatim>\<open>ts.isFunctionExpression\<close> say of it, its modifiers and its span.\<close>

record initializer =
  init_kind :: init_kind
  init_modifiers :: "modifier list"
  init_pos :: nat
  init_end :: nat

datatype binding_name = Identifier string | BindingPattern

record variable_declaration =
  decl_name :: binding_name
  decl_initializer :: "initializer option"

text \<open>An import declaration: \<^verbatim>\<open>getStart()\<close> (the position of the \<^verbatim>\<open>import\<close> keyword,
  after the blanks and comments that \<^verbatim>\<open>pos\<close> includes; \<^verbatim>\<open>getEnd()\<close> is the node's
  \<^verbatim>\<open>end\<close>), the text of the module specifier with its quotes
  (\<^verbatim>\<open>moduleSpecifier.getText(sourceFile)\<close>), and the local names of the named bindings
  when the import clause has a \<^verbatim>\<open>NamedImports\<close> list.\<close>

record import_declaration =
  imp_start :: nat
  moduleSpecifierText :: string
  namedBindings :: "string list option"

datatype node_kind =
    FunctionDeclaration "string option"
  | VariableStatement "variable_declaration list"
  | ImportDeclaration import_declaration
  | OtherNode

datatype node = Node node_kind "modifier list" nat nat "node list"

record source_file =
  statements :: "node list"

subsection \<open>The exported functions: \<^verbatim>\<open>visit\<close> (lines 75-148)\<close>

text \<open>The interface \<^verbatim>\<open>ExportedFunction\<close> (lines 24-31). The field \<^verbatim>\<open>end\<close> is \<open>fn_end\<close>
  here, and the other two short names carry the same prefix. \<^verbatim>\<open>isDefault\<close> is
  optional in the source and only ever tested for truth.\<close>

record ExportedFunction =
  fn_name :: string
  fn_start :: nat
  fn_end :: nat
  isAsync :: bool
  originalBodyCode :: string
  isDefault :: bool

text \<open>Lines 83-117: an exported function declaration, named or anonymous.\<close>

definition visit_function :: "string \<Rightarrow> string option \<Rightarrow> modifier list \<Rightarrow> nat \<Rightarrow> nat \<Rightarrow> ExportedFunction list" where
  "visit_function source node_name mods pos end' =
     (case node_name of
        Some n \<Rightarrow>
          [\<lparr>fn_name = n, fn_start = pos, fn_end = end',
            isAsync = (AsyncKeyword \<in> set mods),
            originalBodyCode = slice pos end' source,
            isDefault = (DefaultKeyword \<in> set mods)\<rparr>]
      | None \<Rightarrow>
          [\<lparr>fn_name = ''_defaultExport'', fn_start = pos, fn_end = end',
            isAsync = (AsyncKeyword \<in> set mods),
            originalBodyCode = slice pos end' source,
            isDefault = True\<rparr>])"

text \<open>Lines 121-142: one declaration of an exported variable statement.\<close>

definition visit_declaration :: "string \<Rightarrow> modifier list \<Rightarrow> variable_declaration \<Rightarrow> ExportedFunction list" where
  "visit_declaration source mods decl =
     (case decl_name decl of
        Identifier varName \<Rightarrow>
          (case decl_initializer decl of
             Some init \<Rightarrow>
               if init_kind init = ArrowFunction \<or> init_kind init = FunctionExpression then
                 [\<lparr>fn_name = varName, fn_start = init_pos init, fn_end = init_end init,
                   isAsync = (AsyncKeyword \<in> set (init_modifiers init)),
                   originalBodyCode = slice (init_pos init) (init_end init) source,
                   isDefault = (DefaultKeyword \<in> set mods)\<rparr>]
               else []
           | None \<Rightarrow> [])
      | BindingPattern \<Rightarrow> [])"

text \<open>Lines 81-144: what one node pushes onto \<^verbatim>\<open>exportedFns\<close>.\<close>

definition visit_node :: "string \<Rightarrow> node_kind \<Rightarrow> modifier list \<Rightarrow> nat \<Rightarrow> nat \<Rightarrow> ExportedFunction list" where
  "visit_node source k mods pos end' =
     (if ExportKeyword \<in> set mods then
        (case k of
           FunctionDeclaration node_name \<Rightarrow> visit_function source node_name mods pos end'
         | VariableStatement decls \<Rightarrow> concat (map (visit_declaration source mods) decls)
         | ImportDeclaration _ \<Rightarrow> []
         | OtherNode \<Rightarrow> [])
      else [])"

text \<open>\<^verbatim>\<open>visit\<close>: the node's own entries first, then \<^verbatim>\<open>ts.forEachChild(node, visit)\<close>.\<close>

fun visit :: "string \<Rightarrow> node \<Rightarrow> ExportedFunction list" where
  "visit source (Node k mods pos end' children) =
     visit_node source k mods pos end' @ concat (map (visit source) children)"

text \<open>Line 148, \<^verbatim>\<open>visit(sourceFile)\<close>: the source file node has no modifiers, and its
  children are its statements (and the end-of-file token, which has neither modifiers
  nor children).\<close>

definition exportedFns :: "string \<Rightarrow> source_file \<Rightarrow> ExportedFunction list" where
  "exportedFns source sf = concat (map (visit source) (statements sf))"

subsection \<open>The channel (lines 172-174)\<close>

text \<open>\<^verbatim>\<open>path.basename(id)\<close> on POSIX: trailing slashes are dropped, and what follows the
  last remaining slash is returned.\<close>

definition basename :: "string \<Rightarrow> string" where
  "basename p =
     rev (takeWhile (\<lambda>c. c \<noteq> CHR ''/'') (dropWhile (\<lambda>c. c = CHR ''/'') (rev p)))"

definition channel_of :: "string \<Rightarrow> ExportedFunction \<Rightarrow> string" where
  "channel_of file_id fn =
     (let hashed = createHashForText (originalBodyCode fn);
          baseFileName = basename file_id
      in baseFileName @ '':'' @ (if isDefault fn then ''default'' else fn_name fn) @ '':'' @ hashed)"

subsection \<open>The generated code (lines 176-329)\<close>

text \<open>Each template literal of the source, piece by piece; \<open>nl\<close> is a line break,
  \<open>dq\<close> a double quote and \<open>sq\<close> a single quote.\<close>

text \<open>Lines 183-195: context main, file \<^verbatim>\<open>.main.ipc\<close>, async.\<close>

definition main_handle_code :: "string \<Rightarrow> string \<Rightarrow> string" where
  "main_handle_code channel name = concat [
     nl, ''    try {'',
     nl, ''      ipcMain.handle('', dq, channel, dq, '', async (event, ...args) => {'',
     nl, ''        try {'',
     nl, ''          return await '', name, ''(...args);'',
     nl, ''        } catch (err) {'',
     nl, ''          console.error('', dq, ''Error in IPC handler for channel: '', channel, '':'', dq, '', err);'',
     nl, ''          throw err;'',
     nl, ''        }'',
     nl, ''      });'',
     nl, ''    } catch (e) {'',
     nl, ''      console.error('', dq, ''Failed to register ipcMain handle for channel: '', channel, dq, '', e);'',
     nl, ''    }'']"

text \<open>Lines 198-211: context main, file \<^verbatim>\<open>.main.ipc\<close>, not async.\<close>

definition main_on_code :: "string \<Rightarrow> string \<Rightarrow> string" where
  "main_on_code channel name = concat [
     nl, ''    try {'',
     nl, ''      ipcMain.on('', dq, channel, dq, '', (event, ...args) => {'',
     nl, ''        try {'',
     nl, ''          event.returnValue = '', name, ''(...args);'',
     nl, ''        } catch (err) {'',
     nl, ''          console.error('', dq, ''Error in IPC on for channel: '', channel, '':'', dq, '', err);'',
     nl, ''          // Return an error object, or handle gracefully'',
     nl, ''          event.returnValue = { error: err?.message };'',
     nl, ''        }'',
     nl, ''      });'',
     nl, ''    } catch (e) {'',
     nl, ''      console.error('', dq, ''Failed to register ipcMain on for channel: '', channel, dq, '', e);'',
     nl, ''    }'']"

text \<open>Lines 223-244: context main, file \<^verbatim>\<open>.renderer.ipc\<close>, async.\<close>

definition broadcast_async_stub :: "string \<Rightarrow> string \<Rightarrow> string" where
  "broadcast_async_stub channel name = concat [
     nl, ''    export async function '', name, ''(...args) {'',
     nl, ''      const all = webContents.getAllWebContents();'',
     nl, ''      return new Promise((resolve, reject) => {'',
     nl, ''        let resolved = false;'',
     nl, ''        for (const wc of all) {'',
     nl, ''          // Listen for just the first successful reply from any webContents'',
     nl, ''          wc.once('', dq, channel, ''-reply'', dq, '', (event, resultOrError) => {'',
     nl, ''            if (!resolved) {'',
     nl, ''              resolved = true;'',
     nl, ''              if (resultOrError && resultOrError.__ipcError) {'',
     nl, ''                reject(new Error(resultOrError.__ipcError));'',
     nl, ''              } else {'',
     nl, ''                resolve(resultOrError);'',
     nl, ''              }'',
     nl, ''            }'',
     nl, ''          });'',
     nl, ''          wc.send('', dq, channel, dq, '', ...args);'',
     nl, ''        }'',
     nl, ''        // If all windows are closed, this could hang, so you might want a timeout or check'',
     nl, ''      });'',
     nl, ''    }'']"

text \<open>Lines 250-256: context main, file \<^verbatim>\<open>.renderer.ipc\<close>, not async.\<close>

definition broadcast_sync_stub :: "string \<Rightarrow> string \<Rightarrow> string" where
  "broadcast_sync_stub channel name = concat [
     nl, ''    export function '', name, ''(...args) {'',
     nl, ''      const all = webContents.getAllWebContents();'',
     nl, ''      for (const wc of all) {'',
     nl, ''        wc.send('', dq, channel, dq, '', ...args);'',
     nl, ''      }'',
     nl, ''    }'']"

text \<open>Lines 266-279: context renderer, file \<^verbatim>\<open>.renderer.ipc\<close>, async.\<close>

definition renderer_on_async_code :: "string \<Rightarrow> string \<Rightarrow> string" where
  "renderer_on_async_code channel name = concat [
     nl, ''    try {'',
     nl, ''      ipcRenderer.on('', dq, channel, dq, '', async (event, ...args) => {'',
     nl, ''        try {'',
     nl, ''          const result = await '', name, ''(...args);'',
     nl, ''          event.sender.send('', dq, channel, ''-reply'', dq, '', result);'',
     nl, ''        } catch (err) {'',
     nl, ''          console.error('', dq, ''Error in renderer IPC function '', sq, channel, sq, '':'', dq, '', err);'',
     nl, ''          event.sender.send('', dq, channel, ''-reply'', dq, '', { __ipcError: err?.message });'',
     nl, ''        }'',
     nl, ''      });'',
     nl, ''    } catch (e) {'',
     nl, ''      console.error('', dq, ''Failed to register ipcRenderer.on for channel: '', channel, dq, '', e);'',
     nl, ''    }'']"

text \<open>Lines 281-294: context renderer, file \<^verbatim>\<open>.renderer.ipc\<close>, not async.\<close>

definition renderer_on_sync_code :: "string \<Rightarrow> string \<Rightarrow> string" where
  "renderer_on_sync_code channel name = concat [
     nl, ''    try {'',
     nl, ''      ipcRenderer.on('', dq, channel, dq, '', (event, ...args) => {'',
     nl, ''        try {'',
     nl, ''          const result = '', name, ''(...args);'',
     nl, ''          event.sender.send('', dq, channel, ''-reply'', dq, '', result);'',
     nl, ''        } catch (err) {'',
     nl, ''          console.error('', dq, ''Error in renderer IPC function '', sq, channel, sq, '':'', dq, '', err);'',
     nl, ''          event.sender.send('', dq, channel, ''-reply'', dq, '', { __ipcError: err?.message });'',
     nl, ''        }'',
     nl, ''      });'',
     nl, ''    } catch (e) {'',
     nl, ''      console.error('', dq, ''Failed to register ipcRenderer.on for channel: '', channel, dq, '', e);'',
     nl, ''    }'']"

text \<open>Lines 303-311: context renderer, file \<^verbatim>\<open>.main.ipc\<close>, async.\<close>

definition invoke_stub :: "string \<Rightarrow> string \<Rightarrow> string" where
  "invoke_stub channel name = concat [
     nl, ''    export async function '', name, ''(...args) {'',
     nl, ''      try {'',
     nl, ''        return await ipcRenderer.invoke('', dq, channel, dq, '', ...args);'',
     nl, ''      } catch (err) {'',
     nl, ''        console.error('', dq, ''IPC invoke error on channel: '', channel, '':'', dq, '', err);'',
     nl, ''        throw err;'',
     nl, ''      }'',
     nl, ''    }'']"

text \<open>Lines 317-325: context renderer, file \<^verbatim>\<open>.main.ipc\<close>, not async.\<close>

definition sendSync_stub :: "string \<Rightarrow> string \<Rightarrow> string" where
  "sendSync_stub channel name = concat [
     nl, ''    export function '', name, ''(...args) {'',
     nl, ''      try {'',
     nl, ''        return ipcRenderer.sendSync('', dq, channel, dq, '', ...args);'',
     nl, ''      } catch (err) {'',
     nl, ''        console.error('', dq, ''IPC sendSync error on channel: '', channel, '':'', dq, '', err);'',
     nl, ''        return { error: err?.message };'',
     nl, ''      }'',
     nl, ''    }'']"

subsection \<open>MagicString\<close>

text \<open>\<^verbatim>\<open>magic-string\<close> keeps the original text as a chain of chunks. A chunk covers the
  span \<open>c_start\<close>..\<open>c_end\<close> of the original and prints as its intro, its content and
  its outro; the whole string prints as its own intro, the chunks in order and its own
  outro. The operations below are the ones \<^verbatim>\<open>transform\<close> calls, after the library's
  \<^verbatim>\<open>Chunk\<close> and \<^verbatim>\<open>MagicString\<close> classes. What the library throws is an \<open>error\<close>.\<close>

datatype error =
    EndOutOfBounds
  | ZeroLengthRange
  | SplitEditedChunk
  | OverwriteAcrossSplitPoint

record chunk =
  c_start :: nat
  c_end :: nat
  c_original :: string
  c_intro :: string
  c_content :: string
  c_outro :: string
  c_edited :: bool

record magic_string =
  ms_original :: string
  ms_intro :: string
  ms_outro :: string
  ms_chunks :: "chunk list"

definition new_chunk :: "nat \<Rightarrow> nat \<Rightarrow> string \<Rightarrow> chunk" where
  "new_chunk a b content =
     \<lparr>c_start = a, c_end = b, c_original = content, c_intro = [], c_content = content,
      c_outro = [], c_edited = False\<rparr>"

text \<open>\<^verbatim>\<open>new MagicString(source)\<close>: one chunk over the whole text.\<close>

definition MagicString :: "string \<Rightarrow> magic_string" where
  "MagicString source =
     \<lparr>ms_original = source, ms_intro = [], ms_outro = [],
      ms_chunks = [new_chunk 0 (length source) source]\<rparr>"

text \<open>\<^verbatim>\<open>chunk.edit(content, storeName)\<close> with \<^verbatim>\<open>contentOnly\<close> unset: the intro and the
  outro are dropped.\<close>

definition chunk_edit :: "string \<Rightarrow> chunk \<Rightarrow> chunk" where
  "chunk_edit content c = c\<lparr>c_content := content, c_intro := [], c_outro := [], c_edited := True\<rparr>"

text \<open>\<^verbatim>\<open>chunk.split(index)\<close>: the chunk becomes two. The outro moves to the second
  half; an edited chunk (its content is empty then, see \<open>split_chunks\<close>) leaves two
  edited, empty halves.\<close>

definition chunk_split :: "nat \<Rightarrow> chunk \<Rightarrow> chunk list" where
  "chunk_split index c =
     (let sliceIndex = index - c_start c;
          originalBefore = take sliceIndex (c_original c);
          originalAfter = drop sliceIndex (c_original c);
          newChunk = (new_chunk index (c_end c) originalAfter)\<lparr>c_outro := c_outro c\<rparr>
      in if c_edited c then
           [c\<lparr>c_original := originalBefore, c_outro := [], c_end := index, c_content := []\<rparr>,
            chunk_edit [] newChunk]
         else
           [c\<lparr>c_original := originalBefore, c_outro := [], c_end := index,
              c_content := originalBefore\<rparr>,
            newChunk])"

text \<open>\<^verbatim>\<open>_split(index)\<close>: nothing to do when a chunk starts or ends at the index;
  otherwise the chunk that holds the index strictly inside is split, which throws when
  that chunk is edited with a non-empty content. No chunk holding the index: nothing
  happens.\<close>

fun split_chunks :: "nat \<Rightarrow> chunk list \<Rightarrow> error + chunk list" where
  "split_chunks index [] = Inr []"
| "split_chunks index (c # cs) =
     (if c_start c < index \<and> index < c_end c then
        (if c_edited c \<and> c_content c \<noteq> [] then Inl SplitEditedChunk
         else Inr (chunk_split index c @ cs))
      else (case split_chunks index cs of Inl e \<Rightarrow> Inl e | Inr cs' \<Rightarrow> Inr (c # cs')))"

definition ms_split :: "nat \<Rightarrow> magic_string \<Rightarrow> error + magic_string" where
  "ms_split index m =
     (if list_ex (\<lambda>c. c_start c = index \<or> c_end c = index) (ms_chunks m) then Inr m
      else (case split_chunks index (ms_chunks m) of
              Inl e \<Rightarrow> Inl e
            | Inr cs \<Rightarrow> Inr (m\<lparr>ms_chunks := cs\<rparr>)))"

text \<open>The loop of \<^verbatim>\<open>update\<close>: the chunk that starts the range takes the new content,
  the other chunks of the range are emptied.\<close>

definition edit_range :: "nat \<Rightarrow> nat \<Rightarrow> string \<Rightarrow> chunk list \<Rightarrow> chunk list" where
  "edit_range start end' content cs =
     map (\<lambda>c. if start \<le> c_start c \<and> c_end c \<le> end' then
                 (if c_start c = start then chunk_edit content c else chunk_edit [] c)
               else c) cs"

text \<open>\<^verbatim>\<open>overwrite(start, end, content)\<close>. An end before the start is thrown by the loop
  (it runs off the chain).\<close>

definition overwrite :: "nat \<Rightarrow> nat \<Rightarrow> string \<Rightarrow> magic_string \<Rightarrow> error + magic_string" where
  "overwrite start end' content m =
     (if end' > length (ms_original m) then Inl EndOutOfBounds
      else if start = end' then Inl ZeroLengthRange
      else (case ms_split start m of
              Inl e \<Rightarrow> Inl e
            | Inr m1 \<Rightarrow>
                (case ms_split end' m1 of
                   Inl e \<Rightarrow> Inl e
                 | Inr m2 \<Rightarrow>
                     if end' < start then Inl OverwriteAcrossSplitPoint
                     else Inr (m2\<lparr>ms_chunks := edit_range start end' content (ms_chunks m2)\<rparr>))))"

text \<open>\<^verbatim>\<open>appendLeft(index, content)\<close>: the content joins the outro of the chunk that ends
  at the index, or the string's intro when no chunk ends there.\<close>

fun append_outro :: "nat \<Rightarrow> string \<Rightarrow> chunk list \<Rightarrow> chunk list" where
  "append_outro index content [] = []"
| "append_outro index content (c # cs) =
     (if c_end c = index then c\<lparr>c_outro := c_outro c @ content\<rparr> # cs
      else c # append_outro index content cs)"

definition appendLeft :: "nat \<Rightarrow> string \<Rightarrow> magic_string \<Rightarrow> error + magic_string" where
  "appendLeft index content m =
     (case ms_split index m of
        Inl e \<Rightarrow> Inl e
      | Inr m1 \<Rightarrow>
          if list_ex (\<lambda>c. c_end c = index) (ms_chunks m1)
          then Inr (m1\<lparr>ms_chunks := append_outro index content (ms_chunks m1)\<rparr>)
          else Inr (m1\<lparr>ms_intro := ms_intro m1 @ content\<rparr>))"

definition append :: "string \<Rightarrow> magic_string \<Rightarrow> magic_string" where
  "append content m = m\<lparr>ms_outro := ms_outro m @ content\<rparr>"

definition prepend :: "string \<Rightarrow> magic_string \<Rightarrow> magic_string" where
  "prepend content m = m\<lparr>ms_intro := content @ ms_intro m\<rparr>"

definition chunk_toString :: "chunk \<Rightarrow> string" where
  "chunk_toString c = c_intro c @ c_content c @ c_outro c"

definition toString :: "magic_string \<Rightarrow> string" where
  "toString m = ms_intro m @ concat (map chunk_toString (ms_chunks m)) @ ms_outro m"

subsection \<open>The loop over the exported functions (lines 157-330)\<close>

text \<open>\<^verbatim>\<open>electronImportsNeeded\<close> is a \<^verbatim>\<open>Set\<close>: it keeps the order of first insertion.\<close>

definition set_add :: "string \<Rightarrow> string list \<Rightarrow> string list" where
  "set_add x xs = (if x \<in> set xs then xs else xs @ [x])"

text \<open>The body of the loop: the state is the MagicString and the set of needed names.\<close>

definition generate_fn ::
  "ipc_context \<Rightarrow> string \<Rightarrow> ExportedFunction \<Rightarrow> magic_string \<times> string list
     \<Rightarrow> error + magic_string \<times> string list" where
  "generate_fn ctx file_id fn st =
     (let magicStr = fst st; electronImportsNeeded = snd st;
          name = fn_name fn; start = fn_start fn; end' = fn_end fn;
          channel = channel_of file_id fn
      in
      if ctx = CtxMain then
        if isMainIpcFile file_id then
          (let needed = set_add ''ipcMain'' electronImportsNeeded in
           if isAsync fn then Inr (append (main_handle_code channel name) magicStr, needed)
           else Inr (append (main_on_code channel name) magicStr, needed))
        else
          (let needed = set_add ''webContents'' electronImportsNeeded in
           if isAsync fn then
             (case overwrite start end' (broadcast_async_stub channel name) magicStr of
                Inl e \<Rightarrow> Inl e | Inr m \<Rightarrow> Inr (m, needed))
           else
             (case overwrite start end' (broadcast_sync_stub channel name) magicStr of
                Inl e \<Rightarrow> Inl e | Inr m \<Rightarrow> Inr (m, needed)))
      else
        if isRendererIpcFile file_id then
          (let needed = set_add ''ipcRenderer'' electronImportsNeeded in
           if isAsync fn then Inr (append (renderer_on_async_code channel name) magicStr, needed)
           else Inr (append (renderer_on_sync_code channel name) magicStr, needed))
        else
          (let needed = set_add ''ipcRenderer'' electronImportsNeeded in
           if isAsync fn then
             (case overwrite start end' (invoke_stub channel name) magicStr of
                Inl e \<Rightarrow> Inl e | Inr m \<Rightarrow> Inr (m, needed))
           else
             (case overwrite start end' (sendSync_stub channel name) magicStr of
                Inl e \<Rightarrow> Inl e | Inr m \<Rightarrow> Inr (m, needed))))"

fun generate_all ::
  "ipc_context \<Rightarrow> string \<Rightarrow> ExportedFunction list \<Rightarrow> magic_string \<times> string list
     \<Rightarrow> error + magic_string \<times> string list" where
  "generate_all ctx file_id [] st = Inr st"
| "generate_all ctx file_id (fn # fns) st =
     (case generate_fn ctx file_id fn st of
        Inl e \<Rightarrow> Inl e
      | Inr st' \<Rightarrow> generate_all ctx file_id fns st')"

subsection \<open>Merging the import from electron (lines 333-413)\<close>

text \<open>What the two regular expressions and the string methods of this step read.
  \<^verbatim>\<open>\s\<close> and \<^verbatim>\<open>trim\<close> take the blanks below 256: tab, line feed, vertical tab, form
  feed, carriage return, space and the no-break space. \<^verbatim>\<open>\w\<close> is a letter, a digit or
  an underscore.\<close>

definition is_space :: "char \<Rightarrow> bool" where
  "is_space c = (c \<in> set [CHR 0x09, CHR 0x0A, CHR 0x0B, CHR 0x0C, CHR 0x0D, CHR 0x20, CHR 0xA0])"

definition is_digit :: "char \<Rightarrow> bool" where
  "is_digit c = (let n = (of_char c :: nat) in 48 \<le> n \<and> n \<le> 57)"

definition is_word :: "char \<Rightarrow> bool" where
  "is_word c = (let n = (of_char c :: nat) in
     (48 \<le> n \<and> n \<le> 57) \<or> (65 \<le> n \<and> n \<le> 90) \<or> n = 95 \<or> (97 \<le> n \<and> n \<le> 122))"

definition trim :: "string \<Rightarrow> string" where
  "trim s = rev (dropWhile is_space (rev (dropWhile is_space s)))"

text \<open>\<^verbatim>\<open>s.split(",")\<close>: the pieces between the commas, empty ones included.\<close>

fun split_on :: "char \<Rightarrow> string \<Rightarrow> string list" where
  "split_on d [] = [[]]"
| "split_on d (c # cs) =
     (if c = d then [] # split_on d cs
      else (case split_on d cs of [] \<Rightarrow> [[c]] | x # xs \<Rightarrow> (c # x) # xs))"

definition strip_prefix :: "string \<Rightarrow> string \<Rightarrow> string option" where
  "strip_prefix p s = (if prefix p s then Some (drop (length p) s) else None)"

text \<open>\<^verbatim>\<open>['"]\<close>: one quote of either kind.\<close>

definition strip_quote :: "string \<Rightarrow> string option" where
  "strip_quote s =
     (case s of [] \<Rightarrow> None | c # r \<Rightarrow> if c = CHR 0x27 \<or> c = CHR 0x22 then Some r else None)"

text \<open>\<^verbatim>\<open>\s+\<close>: at least one blank, then all that follow.\<close>

definition spaces1 :: "string \<Rightarrow> string option" where
  "spaces1 s = (case s of [] \<Rightarrow> None | c # r \<Rightarrow> if is_space c then Some (dropWhile is_space r) else None)"

text \<open>\<^verbatim>\<open>/import\s*\{\s*([^}]*)\}\s*from\s*['"]electron['"]/\<close> tried at the start of \<open>s\<close>:
  the first group and the text after the match. Every greedy star is followed by a
  character outside its class, so the match is the only one at this position: the blanks
  after the brace are skipped and the group runs to the first closing brace.\<close>

definition curly_at :: "string \<Rightarrow> (string \<times> string) option" where
  "curly_at s =
     (case strip_prefix ''import'' s of None \<Rightarrow> None | Some s1 \<Rightarrow>
      case strip_prefix ''{'' (dropWhile is_space s1) of None \<Rightarrow> None | Some s2 \<Rightarrow>
      let s3 = dropWhile is_space s2 in
      case strip_prefix ''}'' (dropWhile (\<lambda>c. c \<noteq> CHR ''}'') s3) of None \<Rightarrow> None | Some s4 \<Rightarrow>
      case strip_prefix ''from'' (dropWhile is_space s4) of None \<Rightarrow> None | Some s5 \<Rightarrow>
      case strip_quote (dropWhile is_space s5) of None \<Rightarrow> None | Some s6 \<Rightarrow>
      case strip_prefix ''electron'' s6 of None \<Rightarrow> None | Some s7 \<Rightarrow>
      case strip_quote s7 of None \<Rightarrow> None | Some s8 \<Rightarrow>
        Some (takeWhile (\<lambda>c. c \<noteq> CHR ''}'') s3, s8))"

text \<open>\<^verbatim>\<open>/import\s+(\w+)\s+from\s+['"]electron['"]/\<close> tried at the start of \<open>s\<close>.\<close>

definition default_at :: "string \<Rightarrow> (string \<times> string) option" where
  "default_at s =
     (case strip_prefix ''import'' s of None \<Rightarrow> None | Some s1 \<Rightarrow>
      case spaces1 s1 of None \<Rightarrow> None | Some s2 \<Rightarrow>
      if takeWhile is_word s2 = [] then None else
      case spaces1 (dropWhile is_word s2) of None \<Rightarrow> None | Some s3 \<Rightarrow>
      case strip_prefix ''from'' s3 of None \<Rightarrow> None | Some s4 \<Rightarrow>
      case spaces1 s4 of None \<Rightarrow> None | Some s5 \<Rightarrow>
      case strip_quote s5 of None \<Rightarrow> None | Some s6 \<Rightarrow>
      case strip_prefix ''electron'' s6 of None \<Rightarrow> None | Some s7 \<Rightarrow>
      case strip_quote s7 of None \<Rightarrow> None | Some s8 \<Rightarrow>
        Some (takeWhile is_word s2, s8))"

text \<open>The leftmost match of a pattern in a text: the text before it, the matched text,
  the first group and the text after it.\<close>

fun regex_search ::
  "(string \<Rightarrow> (string \<times> string) option) \<Rightarrow> string \<Rightarrow> (string \<times> string \<times> string \<times> string) option" where
  "regex_search pat [] =
     (case pat [] of None \<Rightarrow> None | Some (g, r) \<Rightarrow> Some ([], [], g, r))"
| "regex_search pat (c # cs) =
     (case pat (c # cs) of
        Some (g, r) \<Rightarrow> Some ([], take (length (c # cs) - length r) (c # cs), g, r)
      | None \<Rightarrow>
          (case regex_search pat cs of
             None \<Rightarrow> None
           | Some (b, m, g, r) \<Rightarrow> Some (c # b, m, g, r)))"

text \<open>The replacement text of \<^verbatim>\<open>String.prototype.replace\<close>: \<^verbatim>\<open>$$\<close> is a dollar,
  \<^verbatim>\<open>$&\<close> the match, \<^verbatim>\<open>$`\<close> the text before it, \<^verbatim>\<open>$'\<close> the text after it, \<^verbatim>\<open>$n\<close> and
  \<^verbatim>\<open>$nn\<close> a group when the pattern has that many (a two-digit index beyond the groups
  is read as one digit); any other dollar stands for itself.\<close>

definition digit_val :: "char \<Rightarrow> nat" where
  "digit_val c = of_char c - 48"

fun expand :: "string \<Rightarrow> string list \<Rightarrow> string \<Rightarrow> string \<Rightarrow> string \<Rightarrow> string" where
  "expand [] caps matched pre post = []"
| "expand [c] caps matched pre post = [c]"
| "expand (c # d # r) caps matched pre post =
     (if c \<noteq> CHR ''$'' then c # expand (d # r) caps matched pre post
      else if d = CHR ''$'' then CHR ''$'' # expand r caps matched pre post
      else if d = CHR ''&'' then matched @ expand r caps matched pre post
      else if d = CHR 0x60 then pre @ expand r caps matched pre post
      else if d = CHR 0x27 then post @ expand r caps matched pre post
      else if is_digit d then
        (case r of
           e # r' \<Rightarrow>
             if is_digit e \<and> 1 \<le> 10 * digit_val d + digit_val e
                \<and> 10 * digit_val d + digit_val e \<le> length caps
             then caps ! (10 * digit_val d + digit_val e - 1) @ expand r' caps matched pre post
             else if 1 \<le> digit_val d \<and> digit_val d \<le> length caps
             then caps ! (digit_val d - 1) @ expand r caps matched pre post
             else c # expand (d # r) caps matched pre post
         | [] \<Rightarrow>
             if 1 \<le> digit_val d \<and> digit_val d \<le> length caps
             then caps ! (digit_val d - 1)
             else [c, d])
      else c # expand (d # r) caps matched pre post)"

text \<open>\<^verbatim>\<open>text.replace(pattern, replacement)\<close> with a string pattern: the first
  occurrence of the pattern is replaced.\<close>

fun find_first :: "string \<Rightarrow> string \<Rightarrow> (string \<times> string) option" where
  "find_first p [] = (if p = [] then Some ([], []) else None)"
| "find_first p (c # cs) =
     (if prefix p (c # cs) then Some ([], drop (length p) (c # cs))
      else (case find_first p cs of None \<Rightarrow> None | Some (b, a) \<Rightarrow> Some (c # b, a)))"

definition replace_string :: "string \<Rightarrow> string \<Rightarrow> string \<Rightarrow> string" where
  "replace_string text p replacement =
     (case find_first p text of
        None \<Rightarrow> text
      | Some (b, a) \<Rightarrow> b @ expand replacement [] p b a @ a)"

text \<open>The same with a pattern that has one group: the leftmost match is replaced.\<close>

definition replace_regex ::
  "string \<Rightarrow> (string \<Rightarrow> (string \<times> string) option) \<Rightarrow> string \<Rightarrow> string" where
  "replace_regex text pat replacement =
     (case regex_search pat text of
        None \<Rightarrow> text
      | Some (b, m, g, a) \<Rightarrow> b @ expand replacement [g] m b a @ a)"

text \<open>Lines 339-347: the top-level import declarations whose module specifier, its
  quotes removed, is \<^verbatim>\<open>electron\<close>; each with its \<^verbatim>\<open>getEnd()\<close>.\<close>

definition is_electron_import :: "import_declaration \<Rightarrow> bool" where
  "is_electron_import imp =
     (filter (\<lambda>c. c \<noteq> CHR 0x27 \<and> c \<noteq> CHR 0x22) (moduleSpecifierText imp) = ''electron'')"

fun importNodes :: "node list \<Rightarrow> (import_declaration \<times> nat) list" where
  "importNodes [] = []"
| "importNodes (Node (ImportDeclaration imp) mods pos end' children # stmts) =
     (if is_electron_import imp then (imp, end') # importNodes stmts else importNodes stmts)"
| "importNodes (stmt # stmts) = importNodes stmts"

text \<open>Lines 351-361: the names bound by the named imports of all these declarations.
  The source fills this set and never reads it.\<close>

definition existingElectronImports :: "node list \<Rightarrow> string list" where
  "existingElectronImports stmts =
     remdups (concat (map (\<lambda>(imp, e). case namedBindings imp of None \<Rightarrow> [] | Some ns \<Rightarrow> ns)
                          (importNodes stmts)))"

text \<open>Lines 375-378, \<^verbatim>\<open>curlyMatch[1].split(",").map((s) => s.trim()).filter(Boolean)\<close>.\<close>

definition existing_names :: "string \<Rightarrow> string list" where
  "existing_names curlyMatch1 = filter (\<lambda>s. s \<noteq> []) (map trim (split_on CHR '','' curlyMatch1))"

text \<open>Lines 381-385: the needed names that the list lacks are pushed onto it.\<close>

fun add_missing :: "string list \<Rightarrow> string list \<Rightarrow> string list" where
  "add_missing existingNames [] = existingNames"
| "add_missing existingNames (needed # rest) =
     (if needed \<in> set existingNames then add_missing existingNames rest
      else add_missing (existingNames @ [needed]) rest)"

text \<open>Line 388, \<^verbatim>\<open>`import { ${existingNames.join(", ")} } from 'electron'`\<close>.\<close>

definition named_import :: "string list \<Rightarrow> string" where
  "named_import names = ''import { '' @ join '', '' names @ '' } from '' @ sq @ ''electron'' @ sq"

text \<open>Lines 364-406: an import from electron exists; the text of the first one is
  rewritten, or a new import is put after it.\<close>

definition merge_existing ::
  "string \<Rightarrow> import_declaration \<Rightarrow> nat \<Rightarrow> string list \<Rightarrow> magic_string \<Rightarrow> error + magic_string" where
  "merge_existing source firstImportDecl endPos electronImportsNeeded magicStr =
     (let startPos = imp_start firstImportDecl;
          importText = slice startPos endPos source
      in
      case regex_search curly_at importText of
        Some (b, curlyMatch0, curlyMatch1, a) \<Rightarrow>
          (let existingNames = existing_names curlyMatch1;
               newImport = named_import (add_missing existingNames electronImportsNeeded)
           in overwrite startPos endPos (replace_string importText curlyMatch0 newImport) magicStr)
      | None \<Rightarrow>
          (let namedList = join '', '' electronImportsNeeded in
           if regex_search default_at importText \<noteq> None then
             overwrite startPos endPos
               (replace_regex importText default_at
                  (''import $1, { '' @ namedList @ '' } from '' @ sq @ ''electron'' @ sq))
               magicStr
           else
             appendLeft endPos
               (nl @ ''import { '' @ namedList @ '' } from '' @ sq @ ''electron'' @ sq @ '';'')
               magicStr))"

definition merge_imports ::
  "string \<Rightarrow> source_file \<Rightarrow> string list \<Rightarrow> magic_string \<Rightarrow> error + magic_string" where
  "merge_imports source sf electronImportsNeeded magicStr =
     (case importNodes (statements sf) of
        (firstImportDecl, endPos) # _ \<Rightarrow>
          merge_existing source firstImportDecl endPos electronImportsNeeded magicStr
      | [] \<Rightarrow>
          (let needed = join '', '' electronImportsNeeded in
           if needed \<noteq> [] then
             Inr (prepend (''import { '' @ needed @ '' } from '' @ sq @ ''electron'' @ sq @ '';'' @ nl) magicStr)
           else Inr magicStr))"

subsection \<open>\<^verbatim>\<open>transform\<close> (lines 58-423)\<close>

text \<open>\<^verbatim>\<open>transform\<close> returns \<^verbatim>\<open>null\<close> (the file stays as it is) or the new code.\<close>

datatype transform_result = ReturnNull | ReturnCode string

definition transform ::
  "ipc_context \<Rightarrow> string \<Rightarrow> string \<Rightarrow> source_file \<Rightarrow> error + transform_result" where
  "transform ctx source file_id sf =
     (let fns = exportedFns source sf in
      if fns = [] then Inr ReturnNull
      else
        (case generate_all ctx file_id fns (MagicString source, []) of
           Inl e \<Rightarrow> Inl e
         | Inr (magicStr, electronImportsNeeded) \<Rightarrow>
             (case merge_imports source sf electronImportsNeeded magicStr of
                Inl e \<Rightarrow> Inl e
              | Inr m \<Rightarrow> Inr (ReturnCode (toString m)))))"

subsection \<open>What the generated code does when it runs\<close>

text \<open>The claims about errors and replies speak of the generated JavaScript at run
  time. Each function below follows the statements of one template, line by line.
  Electron (\<^verbatim>\<open>ipcMain\<close>, \<^verbatim>\<open>ipcRenderer\<close>, \<^verbatim>\<open>webContents\<close>) is outside the repository:
  what it delivers is an input, and its \<^verbatim>\<open>send\<close> is taken not to throw.

  Values: \<^verbatim>\<open>undefined\<close>, \<^verbatim>\<open>null\<close>, booleans, strings, plain objects (the first binding
  of a key counts) and \<^verbatim>\<open>Error\<close> objects with their message. Numbers are left out.\<close>

datatype jsval =
    JUndefined
  | JNull
  | JBool bool
  | JStr string
  | JObj "(string \<times> jsval) list"
  | JError string

text \<open>The truth value of a condition (\<^verbatim>\<open>ToBoolean\<close>).\<close>

fun truthy :: "jsval \<Rightarrow> bool" where
  "truthy JUndefined = False"
| "truthy JNull = False"
| "truthy (JBool b) = b"
| "truthy (JStr s) = (s \<noteq> [])"
| "truthy (JObj props) = True"
| "truthy (JError m) = True"

text \<open>\<^verbatim>\<open>v.p\<close> on a value that is neither \<^verbatim>\<open>undefined\<close> nor \<^verbatim>\<open>null\<close>, for the
  properties the templates read (\<^verbatim>\<open>message\<close>, \<^verbatim>\<open>__ipcError\<close>): booleans and strings
  have neither.\<close>

fun get_prop :: "jsval \<Rightarrow> string \<Rightarrow> jsval" where
  "get_prop (JObj props) p = (case map_of props p of None \<Rightarrow> JUndefined | Some v \<Rightarrow> v)"
| "get_prop (JError m) p = (if p = ''message'' then JStr m else JUndefined)"
| "get_prop v p = JUndefined"

text \<open>\<^verbatim>\<open>err?.message\<close>.\<close>

definition opt_message :: "jsval \<Rightarrow> jsval" where
  "opt_message err = (if err = JUndefined \<or> err = JNull then JUndefined else get_prop err ''message'')"

text \<open>\<^verbatim>\<open>a && a.p\<close>.\<close>

definition and_prop :: "jsval \<Rightarrow> string \<Rightarrow> jsval" where
  "and_prop a p = (if truthy a then get_prop a p else a)"

text \<open>\<^verbatim>\<open>ToString(v)\<close>, which can throw (\<open>None\<close>). A plain object is converted by its
  \<^verbatim>\<open>toString\<close>: the inherited one gives \<^verbatim>\<open>[object Object]\<close>; an own property
  \<^verbatim>\<open>toString\<close> hides it, no value of this model can be called, and \<^verbatim>\<open>valueOf\<close> gives
  no primitive either, so the conversion throws a \<^verbatim>\<open>TypeError\<close>.\<close>

fun to_string :: "jsval \<Rightarrow> string option" where
  "to_string JUndefined = Some ''undefined''"
| "to_string JNull = Some ''null''"
| "to_string (JBool b) = Some (if b then ''true'' else ''false'')"
| "to_string (JStr s) = Some s"
| "to_string (JObj props) =
     (case map_of props ''toString'' of None \<Rightarrow> Some ''[object Object]'' | Some v \<Rightarrow> None)"
| "to_string (JError m) = Some (if m = [] then ''Error'' else ''Error: '' @ m)"

text \<open>\<^verbatim>\<open>new Error(v)\<close>: the message is \<^verbatim>\<open>ToString(v)\<close>, and empty for \<^verbatim>\<open>undefined\<close>;
  \<open>None\<close> when the conversion throws.\<close>

definition new_Error :: "jsval \<Rightarrow> jsval option" where
  "new_Error v = (if v = JUndefined then Some (JError []) else map_option JError (to_string v))"

text \<open>A call returns or throws; a promise that settles is fulfilled or rejected, and
  \<open>None\<close> stands for a promise that has not settled.\<close>

datatype completion = Returns jsval | Throws jsval

datatype settled = Fulfilled jsval | Rejected jsval

text \<open>What one run of a listener leaves behind: the \<^verbatim>\<open>event.returnValue\<close> slot (\<open>None\<close>
  when it was not assigned), the messages given to \<^verbatim>\<open>event.sender.send\<close>, what
  \<^verbatim>\<open>console.error\<close> was given, and how the listener itself ended.\<close>

record listener_run =
  returnValue :: "jsval option"
  sender_sent :: "(string \<times> jsval) list"
  logged :: "jsval list"
  ended :: completion

text \<open>Lines 200-208, the listener of \<^verbatim>\<open>ipcMain.on\<close>; \<open>f\<close> is the exported function.
  \<^verbatim>\<open>
  (event, ...args) => {
    try {
      event.returnValue = f(...args);
    } catch (err) {
      console.error("Error in IPC on for channel: ...:", err);
      event.returnValue = { error: err?.message };
    }
  }\<close>\<close>

definition main_on_listener :: "(jsval list \<Rightarrow> completion) \<Rightarrow> jsval list \<Rightarrow> listener_run" where
  "main_on_listener f args =
     (case f args of
        Returns v \<Rightarrow>
          \<lparr>returnValue = Some v, sender_sent = [], logged = [], ended = Returns JUndefined\<rparr>
      | Throws err \<Rightarrow>
          \<lparr>returnValue = Some (JObj [(''error'', opt_message err)]), sender_sent = [],
           logged = [err], ended = Returns JUndefined\<rparr>)"

text \<open>Lines 283-291, the listener of \<^verbatim>\<open>ipcRenderer.on\<close> for a function that is not
  async.
  \<^verbatim>\<open>
  (event, ...args) => {
    try {
      const result = f(...args);
      event.sender.send("<channel>-reply", result);
    } catch (err) {
      console.error("Error in renderer IPC function '...':", err);
      event.sender.send("<channel>-reply", { __ipcError: err?.message });
    }
  }\<close>\<close>

definition renderer_on_sync_listener ::
  "string \<Rightarrow> (jsval list \<Rightarrow> completion) \<Rightarrow> jsval list \<Rightarrow> listener_run" where
  "renderer_on_sync_listener channel f args =
     (case f args of
        Returns result \<Rightarrow>
          \<lparr>returnValue = None, sender_sent = [(channel @ ''-reply'', result)], logged = [],
           ended = Returns JUndefined\<rparr>
      | Throws err \<Rightarrow>
          \<lparr>returnValue = None,
           sender_sent = [(channel @ ''-reply'', JObj [(''__ipcError'', opt_message err)])],
           logged = [err], ended = Returns JUndefined\<rparr>)"



text \<open>Lines 224-244, the async stub of a \<^verbatim>\<open>.renderer.ipc\<close> file in main. Its state:
  the variable \<^verbatim>\<open>resolved\<close>, the promise, the \<^verbatim>\<open>once\<close> listeners that are still
  registered (the webContents and the event name) and the messages sent.
  \<^verbatim>\<open>
  export async function f(...args) {
    const all = webContents.getAllWebContents();
    return new Promise((resolve, reject) => {
      let resolved = false;
      for (const wc of all) {
        wc.once("<channel>-reply", (event, resultOrError) => {
          if (!resolved) {
            resolved = true;
            if (resultOrError && resultOrError.__ipcError) {
              reject(new Error(resultOrError.__ipcError));
            } else {
              resolve(resultOrError);
            }
          }
        });
        wc.send("<channel>", ...args);
      }
    });
  }\<close>\<close>

record broadcast =
  resolved :: bool
  promise :: "settled option"
  listeners :: "(nat \<times> string) list"
  wc_sent :: "(nat \<times> string \<times> jsval list) list"

text \<open>\<^verbatim>\<open>resolve\<close> and \<^verbatim>\<open>reject\<close> settle a promise that is still pending, and do nothing
  to a settled one.\<close>

definition settle :: "settled \<Rightarrow> broadcast \<Rightarrow> broadcast" where
  "settle s b = (case promise b of None \<Rightarrow> b\<lparr>promise := Some s\<rparr> | Some _ \<Rightarrow> b)"


text \<open>The listener's body: the new state, and whether the listener threw. It throws
  when \<^verbatim>\<open>new Error(resultOrError.__ipcError)\<close> does: \<^verbatim>\<open>resolved\<close> is set by then, and
  neither \<^verbatim>\<open>reject\<close> nor \<^verbatim>\<open>resolve\<close> is reached.\<close>

definition reply_listener :: "jsval \<Rightarrow> broadcast \<Rightarrow> broadcast \<times> bool" where
  "reply_listener resultOrError b =
     (if \<not> resolved b then
        (let b' = b\<lparr>resolved := True\<rparr> in
         if truthy (and_prop resultOrError ''__ipcError'') then
           (case new_Error (get_prop resultOrError ''__ipcError'') of
              None \<Rightarrow> (b', True)
            | Some err \<Rightarrow> (settle (Rejected err) b', False))
         else (settle (Fulfilled resultOrError) b', False))
      else (b, False))"

text \<open>The event \<open>name\<close> is emitted on the webContents \<open>wc\<close> with one argument: the
  \<^verbatim>\<open>once\<close> listeners registered there under that name run one after the other, each
  removed before it runs (\<open>n\<close> of them are left to run). A listener that throws ends
  the emit: the exception goes to the caller of \<^verbatim>\<open>emit\<close>, which is Electron, and the
  listeners after it stay registered.\<close>

fun run_listeners :: "nat \<Rightarrow> nat \<times> string \<Rightarrow> jsval \<Rightarrow> broadcast \<Rightarrow> broadcast" where
  "run_listeners 0 l payload b = b"
| "run_listeners (Suc n) l payload b =
     (case reply_listener payload (b\<lparr>listeners := remove1 l (listeners b)\<rparr>) of
        (b', threw) \<Rightarrow> if threw then b' else run_listeners n l payload b')"

definition emit :: "broadcast \<Rightarrow> nat \<times> string \<times> jsval \<Rightarrow> broadcast" where
  "emit b ev =
     (case ev of (wc, name, payload) \<Rightarrow>
        run_listeners (length (filter (\<lambda>l. l = (wc, name)) (listeners b))) (wc, name) payload b)"

text \<open>Lines 251-256, the stub of a \<^verbatim>\<open>.renderer.ipc\<close> file in main for a function that is
  not async: what the call returns, the messages sent and the listeners registered.
  \<^verbatim>\<open>
  export function f(...args) {
    const all = webContents.getAllWebContents();
    for (const wc of all) {
      wc.send("<channel>", ...args);
    }
  }\<close>\<close>

record stub_call =
  call_ended :: completion
  call_sent :: "(nat \<times> string \<times> jsval list) list"
  call_listeners :: "(nat \<times> string) list"

definition broadcast_sync_call :: "nat list \<Rightarrow> string \<Rightarrow> jsval list \<Rightarrow> stub_call" where
  "broadcast_sync_call all channel args =
     \<lparr>call_ended = Returns JUndefined,
      call_sent = map (\<lambda>wc. (wc, channel, args)) all,
      call_listeners = []\<rparr>"

text \<open>Two inputs for examples: a function that throws what it is given, and an
  \<^verbatim>\<open>invoke\<close> that settles as it is told.\<close>

definition always_throws :: "jsval \<Rightarrow> jsval list \<Rightarrow> completion" where
  "always_throws err args = Throws err"


subsection \<open>Frames: what an edited text keeps of the original\<close>

text \<open>A span \<open>a\<close>..\<open>b\<close> lies within one of the spans of \<open>S\<close>. For \<open>a = b\<close> this is a
  position inside a span or at one of its ends.\<close>

definition within :: "(nat \<times> nat) list \<Rightarrow> nat \<Rightarrow> nat \<Rightarrow> bool" where
  "within S a b = list_ex (\<lambda>(sa, sb). sa \<le> a \<and> b \<le> sb) S"

text \<open>The spans that \<^verbatim>\<open>transform\<close> may rewrite: the recorded span of each exported
  function, and the span of the first import declaration from electron
  (\<^verbatim>\<open>getStart()\<close> to \<^verbatim>\<open>getEnd()\<close>).\<close>

definition edit_spans :: "string \<Rightarrow> source_file \<Rightarrow> (nat \<times> nat) list" where
  "edit_spans source sf =
     map (\<lambda>fn. (fn_start fn, fn_end fn)) (exportedFns source sf) @
     (case importNodes (statements sf) of
        [] \<Rightarrow> []
      | (imp, endPos) # _ \<Rightarrow> [(imp_start imp, endPos)])"

text \<open>Pieces \<open>(a, b, t)\<close>: the text \<open>t\<close> stands where the original had its positions
  \<open>a\<close>..\<open>b\<close>. The pieces tile a range when each starts where the one before ends. A piece
  is in order when it is the original text of its positions, or lies within a span.\<close>

fun pieces_tile :: "nat \<Rightarrow> (nat \<times> nat \<times> string) list \<Rightarrow> nat \<Rightarrow> bool" where
  "pieces_tile a [] b = (a = b)"
| "pieces_tile a (p # ps) b = (fst p = a \<and> a \<le> fst (snd p) \<and> pieces_tile (fst (snd p)) ps b)"

definition piece_ok :: "string \<Rightarrow> (nat \<times> nat) list \<Rightarrow> nat \<times> nat \<times> string \<Rightarrow> bool" where
  "piece_ok source S p =
     (snd (snd p) = slice (fst p) (fst (snd p)) source \<or> within S (fst p) (fst (snd p)))"

text \<open>The same for the chunks of a MagicString: they tile the original; a chunk that is
  not edited prints its original text, has no intro, and has an outro only at a position
  within a span; an edited chunk lies within a span.\<close>

fun tiles :: "nat \<Rightarrow> chunk list \<Rightarrow> nat \<Rightarrow> bool" where
  "tiles a [] b = (a = b)"
| "tiles a (c # cs) b = (c_start c = a \<and> a \<le> c_end c \<and> tiles (c_end c) cs b)"

definition chunk_inv :: "string \<Rightarrow> (nat \<times> nat) list \<Rightarrow> chunk \<Rightarrow> bool" where
  "chunk_inv src S c =
     (c_original c = slice (c_start c) (c_end c) src \<and>
      (if c_edited c then within S (c_start c) (c_end c)
       else c_content c = c_original c \<and> c_intro c = [] \<and>
            (c_outro c = [] \<or> within S (c_end c) (c_end c))))"

definition ms_inv :: "string \<Rightarrow> (nat \<times> nat) list \<Rightarrow> magic_string \<Rightarrow> bool" where
  "ms_inv src S m =
     (ms_original m = src \<and> tiles 0 (ms_chunks m) (length src) \<and>
      list_all (chunk_inv src S) (ms_chunks m))"

subsection \<open>Notions for the four cells\<close>











section \<open>Properties\<close>

subsection \<open>Which files are transformed\<close>

lemma transformInclude_iff:
  "transformInclude ctx file_id = (isMainIpcFile file_id \<or> isRendererIpcFile file_id)"
proof -
  have m: "isMainIpcFile file_id \<Longrightarrow> isIpcFile file_id"
    unfolding isMainIpcFile_def isIpcFile_def suffix_def by auto
  have r: "isRendererIpcFile file_id \<Longrightarrow> isIpcFile file_id"
    unfolding isRendererIpcFile_def isIpcFile_def suffix_def by auto
  show ?thesis
    using m r by (cases ctx) (auto simp: transformInclude_def Let_def)
qed

text \<open>
  Claim C3. A file whose name ends in none of \<^verbatim>\<open>.main.ipc.ts\<close>, \<^verbatim>\<open>.main.ipc.js\<close>,
  \<^verbatim>\<open>.renderer.ipc.ts\<close> and \<^verbatim>\<open>.renderer.ipc.js\<close> is refused by \<^verbatim>\<open>transformInclude\<close>,
  in both contexts; and when no exported function is extracted, \<^verbatim>\<open>transform\<close>
  returns \<^verbatim>\<open>null\<close>: no edit is made and no import is added, whatever the file holds.
\<close>

theorem no_op_on_other_files:
  "(\<not> (\<exists>stem. file_id = stem @ ''.main.ipc.ts'' \<or> file_id = stem @ ''.main.ipc.js''
           \<or> file_id = stem @ ''.renderer.ipc.ts'' \<or> file_id = stem @ ''.renderer.ipc.js'')
      \<longrightarrow> \<not> transformInclude ctx file_id)
   \<and> (exportedFns source sf = [] \<longrightarrow> transform ctx' source file_id' sf = Inr ReturnNull)"
proof (intro conjI impI)
  assume "\<not> (\<exists>stem. file_id = stem @ ''.main.ipc.ts'' \<or> file_id = stem @ ''.main.ipc.js''
           \<or> file_id = stem @ ''.renderer.ipc.ts'' \<or> file_id = stem @ ''.renderer.ipc.js'')"
  then show "\<not> transformInclude ctx file_id"
    unfolding transformInclude_iff isMainIpcFile_def isRendererIpcFile_def suffix_def
    by blast
next
  assume "exportedFns source sf = []"
  then show "transform ctx' source file_id' sf = Inr ReturnNull"
    by (simp add: transform_def)
qed

text \<open>The witness: \<^verbatim>\<open>src/app.ts\<close> is refused, and a file \<^verbatim>\<open>a.main.ipc.ts\<close> that only
  exports a class comes back as \<^verbatim>\<open>null\<close>.\<close>

theorem no_op_on_other_files_witness:
  "\<not> transformInclude CtxMain ''src/app.ts''
   \<and> transform CtxRenderer ''export class A {}'' ''a.main.ipc.ts''
        \<lparr>statements = [Node OtherNode [ExportKeyword] 0 17 []]\<rparr> = Inr ReturnNull"
proof -
  have name: "\<not> (\<exists>stem. ''src/app.ts'' = stem @ ''.main.ipc.ts'' \<or> ''src/app.ts'' = stem @ ''.main.ipc.js''
           \<or> ''src/app.ts'' = stem @ ''.renderer.ipc.ts'' \<or> ''src/app.ts'' = stem @ ''.renderer.ipc.js'')"
  proof
    assume "\<exists>stem. ''src/app.ts'' = stem @ ''.main.ipc.ts'' \<or> ''src/app.ts'' = stem @ ''.main.ipc.js''
           \<or> ''src/app.ts'' = stem @ ''.renderer.ipc.ts'' \<or> ''src/app.ts'' = stem @ ''.renderer.ipc.js''"
    then have "suffix ''.main.ipc.ts'' ''src/app.ts'' \<or> suffix ''.main.ipc.js'' ''src/app.ts''
       \<or> suffix ''.renderer.ipc.ts'' ''src/app.ts'' \<or> suffix ''.renderer.ipc.js'' ''src/app.ts''"
      unfolding suffix_def by blast
    then show False
      by (simp add: suffix_to_prefix)
  qed
  have none: "exportedFns ''export class A {}'' \<lparr>statements = [Node OtherNode [ExportKeyword] 0 17 []]\<rparr> = []"
    by (simp add: exportedFns_def visit_node_def)
  from no_op_on_other_files [of "''src/app.ts''" CtxMain "''export class A {}''"
      "\<lparr>statements = [Node OtherNode [ExportKeyword] 0 17 []]\<rparr>" CtxRenderer "''a.main.ipc.ts''"]
  show ?thesis
    using name none by blast
qed

subsection \<open>The channel\<close>

lemma length_sha_output: "length (sha_output st) = 32"
  by (cases st rule: sha_output.cases) (simp add: bytes_of_u32_def)

lemma length_sha256: "length (sha256 m) = 32"
  by (simp add: sha256_def Let_def length_sha_output)

lemma length_digest_hex: "length (digest_hex bs) = 2 * length bs"
  by (induction bs) (simp_all add: digest_hex_def hex_of_byte_def)

lemma hex_digit_in: "hex_digit n \<in> set ''0123456789abcdef''"
  unfolding hex_digit_def by (rule nth_mem) simp

lemma set_digest_hex: "set (digest_hex bs) \<subseteq> set ''0123456789abcdef''"
  unfolding digest_hex_def hex_of_byte_def using hex_digit_in by auto

lemma length_createHashForText: "length (createHashForText t) = 12"
  by (simp add: createHashForText_def slice_def length_digest_hex length_sha256)

lemma set_createHashForText: "set (createHashForText t) \<subseteq> set ''0123456789abcdef''"
  unfolding createHashForText_def slice_def
  using set_digest_hex set_take_subset by fastforce








subsection \<open>Errors of handlers that are not async\<close>

lemma opt_message_Error: "opt_message (JError m) = JStr m"
  by (simp add: opt_message_def)

text \<open>Against claim C5 as stated: in the renderer, with a \<^verbatim>\<open>.renderer.ipc\<close> file, a
  function that throws \<^verbatim>\<open>new Error("boom")\<close> leaves \<^verbatim>\<open>event.returnValue\<close> unassigned;
  the listener sends \<^verbatim>\<open>{ __ipcError: "boom" }\<close> on the reply channel instead.\<close>

theorem renderer_sync_listener_sends_sentinel:
  "returnValue (renderer_on_sync_listener ''c'' (always_throws (JError ''boom'')) []) = None
   \<and> returnValue (renderer_on_sync_listener ''c'' (always_throws (JError ''boom'')) [])
       \<noteq> Some (JObj [(''error'', JStr ''boom'')])
   \<and> sender_sent (renderer_on_sync_listener ''c'' (always_throws (JError ''boom'')) [])
       = [(''c-reply'', JObj [(''__ipcError'', JStr ''boom'')])]"
  by (simp add: renderer_on_sync_listener_def always_throws_def opt_message_def)

text \<open>
  Claim C5, amended. When the function throws \<open>err\<close>: in main, with a \<^verbatim>\<open>.main.ipc\<close>
  file, the listener of \<^verbatim>\<open>ipcMain.on\<close> assigns \<^verbatim>\<open>{ error: err?.message }\<close> to
  \<^verbatim>\<open>event.returnValue\<close>; in the renderer, with a \<^verbatim>\<open>.renderer.ipc\<close> file, the listener
  of \<^verbatim>\<open>ipcRenderer.on\<close> sends \<^verbatim>\<open>{ __ipcError: err?.message }\<close> on the reply channel and
  assigns no return value. Both listeners end normally: the error does not leave them.
  For an \<^verbatim>\<open>Error\<close> object, \<^verbatim>\<open>err?.message\<close> is its message.
\<close>

theorem sync_handler_errors_are_caught:
  assumes "f args = Throws err"
  shows "returnValue (main_on_listener f args) = Some (JObj [(''error'', opt_message err)])
       \<and> sender_sent (main_on_listener f args) = []
       \<and> ended (main_on_listener f args) = Returns JUndefined
       \<and> returnValue (renderer_on_sync_listener channel f args) = None
       \<and> sender_sent (renderer_on_sync_listener channel f args)
           = [(channel @ ''-reply'', JObj [(''__ipcError'', opt_message err)])]
       \<and> ended (renderer_on_sync_listener channel f args) = Returns JUndefined
       \<and> opt_message (JError m) = JStr m"
  using assms
  by (simp add: main_on_listener_def renderer_on_sync_listener_def opt_message_def)

text \<open>The witness: a function that throws \<^verbatim>\<open>new Error("boom")\<close>.\<close>

theorem sync_handler_errors_are_caught_witness:
  "returnValue (main_on_listener (always_throws (JError ''boom'')) [JStr ''x''])
       = Some (JObj [(''error'', JStr ''boom'')])
   \<and> ended (main_on_listener (always_throws (JError ''boom'')) [JStr ''x'']) = Returns JUndefined
   \<and> sender_sent (renderer_on_sync_listener ''c'' (always_throws (JError ''boom'')) [JStr ''x''])
       = [(''c-reply'', JObj [(''__ipcError'', JStr ''boom'')])]
   \<and> ended (renderer_on_sync_listener ''c'' (always_throws (JError ''boom'')) [JStr ''x'']) = Returns JUndefined"
proof -
  have h: "always_throws (JError ''boom'') [JStr ''x''] = Throws (JError ''boom'')"
    by (simp add: always_throws_def)
  from sync_handler_errors_are_caught
      [of "always_throws (JError ''boom'')" "[JStr ''x'']" "JError ''boom''" "''c''" "''boom''"]
  show ?thesis using h by (simp add: opt_message_def)
qed

subsection \<open>The async stubs: replies and errors\<close>

lemma promise_settle_Some: "promise b = Some s \<Longrightarrow> promise (settle s' b) = Some s"
  by (simp add: settle_def)









lemma wc_sent_settle [simp]: "wc_sent (settle s b) = wc_sent b"
  by (simp add: settle_def split: option.splits)

lemma wc_sent_reply_listener [simp]: "wc_sent (fst (reply_listener p b)) = wc_sent b"
  by (simp add: reply_listener_def Let_def split: option.splits)

lemma wc_sent_run_listeners [simp]: "wc_sent (run_listeners n l p b) = wc_sent b"
proof (induction n arbitrary: b)
  case 0
  then show ?case by simp
next
  case (Suc n)
  let ?b = "b\<lparr>listeners := remove1 l (listeners b)\<rparr>"
  have "wc_sent (fst (reply_listener p ?b)) = wc_sent b" by simp
  with Suc.IH show ?case
    by (cases "reply_listener p ?b") simp
qed

lemma wc_sent_emit [simp]: "wc_sent (emit b ev) = wc_sent b"
  by (cases ev) (simp add: emit_def)

lemma wc_sent_foldl_emit [simp]: "wc_sent (foldl emit b evs) = wc_sent b"
  by (induction evs arbitrary: b) simp_all












subsection \<open>The stub that is not async, in main\<close>

text \<open>No file name has both roles.\<close>

lemma roles_exclusive: "isRendererIpcFile file_id \<Longrightarrow> \<not> isMainIpcFile file_id"
proof
  assume r: "isRendererIpcFile file_id" and m: "isMainIpcFile file_id"
  from r obtain x where x: "x \<in> {''.renderer.ipc.ts'', ''.renderer.ipc.js''}" "suffix x file_id"
    by (auto simp: isRendererIpcFile_def)
  from m obtain y where y: "y \<in> {''.main.ipc.ts'', ''.main.ipc.js''}" "suffix y file_id"
    by (auto simp: isMainIpcFile_def)
  from x(2) y(2) have "suffix x y \<or> suffix y x"
    by (rule suffix_same_cases)
  with x(1) y(1) show False
    by (auto simp: suffix_to_prefix)
qed

text \<open>The template of lines 251-256 by itself: the span is overwritten with it, a call
  of it sends the channel message to every webContents, in order, returns \<^verbatim>\<open>undefined\<close>
  and registers no listener; and its text, the two holes left empty, has no \<^verbatim>\<open>once\<close>,
  no \<^verbatim>\<open>reply\<close>, no \<^verbatim>\<open>await\<close>, no \<^verbatim>\<open>return\<close> and no \<^verbatim>\<open>Error\<close> or \<^verbatim>\<open>error\<close>.\<close>

lemma broadcast_sync_stub_fires_and_forgets:
  "(isRendererIpcFile file_id \<and> \<not> isAsync fn \<longrightarrow>
      generate_fn CtxMain file_id fn (m, needed) =
        (case overwrite (fn_start fn) (fn_end fn)
                (broadcast_sync_stub (channel_of file_id fn) (fn_name fn)) m of
           Inl e \<Rightarrow> Inl e
         | Inr m' \<Rightarrow> Inr (m', set_add ''webContents'' needed)))
   \<and> call_sent (broadcast_sync_call all channel args) = map (\<lambda>wc. (wc, channel, args)) all
   \<and> call_ended (broadcast_sync_call all channel args) = Returns JUndefined
   \<and> call_listeners (broadcast_sync_call all channel args) = []
   \<and> \<not> sublist ''once'' (broadcast_sync_stub [] [])
   \<and> \<not> sublist ''reply'' (broadcast_sync_stub [] [])
   \<and> \<not> sublist ''rror'' (broadcast_sync_stub [] [])
   \<and> \<not> sublist ''await'' (broadcast_sync_stub [] [])
   \<and> \<not> sublist ''return'' (broadcast_sync_stub [] [])"
proof (intro conjI impI)
  assume a: "isRendererIpcFile file_id \<and> \<not> isAsync fn"
  then have "\<not> isMainIpcFile file_id" by (simp add: roles_exclusive)
  with a show "generate_fn CtxMain file_id fn (m, needed) =
        (case overwrite (fn_start fn) (fn_end fn)
                (broadcast_sync_stub (channel_of file_id fn) (fn_name fn)) m of
           Inl e \<Rightarrow> Inl e
         | Inr m' \<Rightarrow> Inr (m', set_add ''webContents'' needed))"
    by (simp add: generate_fn_def Let_def)
qed (simp_all add: broadcast_sync_call_def, code_simp+)

subsection \<open>The frame of the edits\<close>

lemma within_mono: "within S a b \<Longrightarrow> set S \<subseteq> set S' \<Longrightarrow> within S' a b"
  by (auto simp: within_def list_ex_iff)

lemma within_iff: "within S a b = (\<exists>sa sb. (sa, sb) \<in> set S \<and> sa \<le> a \<and> b \<le> sb)"
  by (auto simp: within_def list_ex_iff)

lemma within_shrink: "within S a b \<Longrightarrow> a \<le> a' \<Longrightarrow> b' \<le> b \<Longrightarrow> within S a' b'"
  unfolding within_iff by (meson order_trans)

lemma within_Cons: "sa \<le> a \<Longrightarrow> b \<le> sb \<Longrightarrow> within ((sa, sb) # S) a b"
  by (simp add: within_def)

lemma within_ConsI: "within S a b \<Longrightarrow> within (x # S) a b"
  by (simp add: within_def)

lemma chunk_inv_mono: "chunk_inv src S c \<Longrightarrow> set S \<subseteq> set S' \<Longrightarrow> chunk_inv src S' c"
  by (auto simp: chunk_inv_def intro: within_mono split: if_splits)

lemma ms_inv_mono: "ms_inv src S m \<Longrightarrow> set S \<subseteq> set S' \<Longrightarrow> ms_inv src S' m"
  by (auto simp: ms_inv_def list_all_iff intro: chunk_inv_mono)

lemma ms_inv_MagicString: "ms_inv src S (MagicString src)"
  by (simp add: ms_inv_def MagicString_def new_chunk_def chunk_inv_def slice_def)


lemma tiles_append: "tiles a (xs @ ys) b = (\<exists>k. tiles a xs k \<and> tiles k ys b)"
  by (induction xs arbitrary: a) auto

lemma slice_slice_take: "i \<le> b \<Longrightarrow> take (i - a) (slice a b src) = slice a i src"
  by (simp add: slice_def min_def)

lemma slice_slice_drop: "a \<le> i \<Longrightarrow> drop (i - a) (slice a b src) = slice i b src"
  by (simp add: slice_def drop_take)

text \<open>Splitting keeps the invariant.\<close>

lemma chunk_split_inv:
  assumes "chunk_inv src S c" "c_start c < i" "i < c_end c" "\<not> (c_edited c \<and> c_content c \<noteq> [])"
  shows "list_all (chunk_inv src S) (chunk_split i c)"
  using assms
  by (auto simp: chunk_split_def chunk_inv_def Let_def new_chunk_def chunk_edit_def
      slice_slice_take slice_slice_drop intro: within_shrink split: if_splits)

lemma chunk_split_tiles:
  assumes "c_start c < i" "i < c_end c"
  shows "tiles (c_start c) (chunk_split i c @ cs) b = tiles (c_start c) (c # cs) b"
  using assms
  by (auto simp: chunk_split_def Let_def new_chunk_def chunk_edit_def)

lemma split_chunks_inv:
  assumes "split_chunks i cs = Inr cs'" "list_all (chunk_inv src S) cs" "tiles a cs b"
  shows "list_all (chunk_inv src S) cs' \<and> tiles a cs' b"
  using assms
proof (induction cs arbitrary: a cs')
  case Nil
  then show ?case by simp
next
  case (Cons c cs)
  show ?case
  proof (cases "c_start c < i \<and> i < c_end c")
    case True
    with Cons.prems have ne: "\<not> (c_edited c \<and> c_content c \<noteq> [])" and cs': "cs' = chunk_split i c @ cs"
      by (auto split: if_splits)
    from Cons.prems have ci: "chunk_inv src S c" and st: "c_start c = a" by auto
    from chunk_split_inv [OF ci _ _ ne, of i] chunk_split_tiles [of c i cs b] True Cons.prems cs' st
    show ?thesis by auto
  next
    case False
    with Cons.prems obtain r where r: "split_chunks i cs = Inr r" "cs' = c # r"
      by (auto split: sum.splits)
    from Cons.IH [OF r(1)] Cons.prems r(2) show ?thesis by auto
  qed
qed

lemma ms_split_inv:
  assumes "ms_split i m = Inr m'" "ms_inv src S m"
  shows "ms_inv src S m'"
  using assms split_chunks_inv [of i "ms_chunks m" _ src S 0 "length src"]
  by (auto simp: ms_split_def ms_inv_def split: if_splits sum.splits)


text \<open>Overwriting adds its span.\<close>

lemma edit_range_inv:
  assumes "list_all (chunk_inv src S) cs"
  shows "list_all (chunk_inv src ((a, b) # S)) (edit_range a b t cs)"
proof -
  have "chunk_inv src ((a, b) # S)
          (if a \<le> c_start c \<and> c_end c \<le> b
           then (if c_start c = a then chunk_edit t c else chunk_edit [] c) else c)"
    if c: "chunk_inv src S c" for c
  proof (cases "a \<le> c_start c \<and> c_end c \<le> b")
    case True
    with c show ?thesis
      by (simp add: chunk_inv_def chunk_edit_def within_Cons)
  next
    case False
    with chunk_inv_mono [OF c, of "(a, b) # S"] show ?thesis
      by auto
  qed
  then have step: "chunk_inv src S c \<Longrightarrow> chunk_inv src ((a, b) # S)
          (if a \<le> c_start c \<and> c_end c \<le> b
           then (if c_start c = a then chunk_edit t c else chunk_edit [] c) else c)" for c .
  from assms show ?thesis
    unfolding edit_range_def
  proof (induction cs)
    case Nil
    then show ?case by simp
  next
    case (Cons c cs)
    then have "chunk_inv src S c" and "list_all (chunk_inv src S) cs" by simp_all
    with Cons.IH step [of c] show ?case by simp
  qed
qed

lemma edit_range_tiles: "tiles x (edit_range a b t cs) y = tiles x cs y"
  by (induction cs arbitrary: x) (auto simp: edit_range_def chunk_edit_def)

lemma overwrite_inv:
  assumes "overwrite a b t m = Inr m'" "ms_inv src S m"
  shows "ms_inv src ((a, b) # S) m'"
proof -
  from assms(1) obtain m1 m2 where
    s1: "ms_split a m = Inr m1" and s2: "ms_split b m1 = Inr m2"
    and m': "m' = m2\<lparr>ms_chunks := edit_range a b t (ms_chunks m2)\<rparr>"
    by (auto simp: overwrite_def split: if_splits sum.splits)
  from ms_split_inv [OF s2 ms_split_inv [OF s1 assms(2)]]
  have "ms_inv src S m2" .
  then show ?thesis
    by (simp add: m' ms_inv_def edit_range_inv edit_range_tiles)
qed

text \<open>An insertion at a position within a span.\<close>

lemma append_outro_inv:
  assumes "list_all (chunk_inv src S) cs" "within S i i"
  shows "list_all (chunk_inv src S) (append_outro i t cs)"
  using assms
  by (induction cs) (auto simp: chunk_inv_def)

lemma append_outro_tiles: "tiles x (append_outro i t cs) y = tiles x cs y"
  by (induction cs arbitrary: x) auto

lemma appendLeft_inv:
  assumes "appendLeft i t m = Inr m'" "ms_inv src S m" "within S i i"
  shows "ms_inv src S m'"
proof -
  from assms(1) obtain m1 where s1: "ms_split i m = Inr m1"
    and m': "m' = m1\<lparr>ms_chunks := append_outro i t (ms_chunks m1)\<rparr> \<or> m' = m1\<lparr>ms_intro := ms_intro m1 @ t\<rparr>"
    by (auto simp: appendLeft_def split: if_splits sum.splits)
  from ms_split_inv [OF s1 assms(2)] have "ms_inv src S m1" .
  with m' assms(3) show ?thesis
    by (auto simp: ms_inv_def append_outro_inv append_outro_tiles)
qed

lemma append_inv: "ms_inv src S m \<Longrightarrow> ms_inv src S (append t m)"
  by (simp add: ms_inv_def append_def)

lemma prepend_inv: "ms_inv src S m \<Longrightarrow> ms_inv src S (prepend t m)"
  by (simp add: ms_inv_def prepend_def)


text \<open>The loop over the functions adds their spans.\<close>

lemma generate_fn_inv:
  assumes "generate_fn ctx file_id fn (m, ns) = Inr (m', ns')" "ms_inv src S m"
  shows "ms_inv src ((fn_start fn, fn_end fn) # S) m'"
proof -
  have app: "ms_inv src ((fn_start fn, fn_end fn) # S) (append t m)" for t
    using ms_inv_mono [OF assms(2), of "(fn_start fn, fn_end fn) # S"] by (auto intro: append_inv)
  from assms(1) consider (a) t where "m' = append t m"
    | (o) t where "overwrite (fn_start fn) (fn_end fn) t m = Inr m'"
    by (auto simp: generate_fn_def Let_def split: if_splits sum.splits)
  then show ?thesis
  proof cases
    case a
    then show ?thesis by (simp add: app)
  next
    case o
    then show ?thesis by (rule overwrite_inv) (rule assms(2))
  qed
qed

lemma generate_all_inv:
  assumes "generate_all ctx file_id fns (m, ns) = Inr (m', ns')" "ms_inv src S m"
  shows "ms_inv src (rev (map (\<lambda>fn. (fn_start fn, fn_end fn)) fns) @ S) m'"
  using assms
proof (induction fns arbitrary: m ns S)
  case Nil
  then show ?case by simp
next
  case (Cons fn fns)
  from Cons.prems(1) obtain m1 ns1 where
    g1: "generate_fn ctx file_id fn (m, ns) = Inr (m1, ns1)"
    and g2: "generate_all ctx file_id fns (m1, ns1) = Inr (m', ns')"
    by (auto split: sum.splits)
  from Cons.IH [OF g2 generate_fn_inv [OF g1 Cons.prems(2)]]
  show ?case by simp
qed

text \<open>The import step adds the span of the first import from electron.\<close>

lemma merge_existing_inv:
  assumes "merge_existing source imp endPos ns m = Inr m'" "ms_inv source S m"
    and "imp_start imp \<le> endPos"
  shows "ms_inv source ((imp_start imp, endPos) # S) m'"
proof -
  from assms(1) consider (o) t where "overwrite (imp_start imp) endPos t m = Inr m'"
    | (a) t where "appendLeft endPos t m = Inr m'"
    by (auto simp: merge_existing_def Let_def split: option.splits prod.splits if_splits)
  then show ?thesis
  proof cases
    case o
    then show ?thesis by (rule overwrite_inv) (rule assms(2))
  next
    case a
    have "ms_inv source ((imp_start imp, endPos) # S) m"
      using ms_inv_mono [OF assms(2), of "(imp_start imp, endPos) # S"] by auto
    moreover have "within ((imp_start imp, endPos) # S) endPos endPos"
      using assms(3) by (simp add: within_Cons)
    ultimately show ?thesis
      using a by (auto intro: appendLeft_inv)
  qed
qed

lemma merge_imports_inv:
  assumes "merge_imports source sf ns m = Inr m'" "ms_inv source S m"
    and "list_all (\<lambda>(imp, endPos). imp_start imp \<le> endPos) (importNodes (statements sf))"
  shows "ms_inv source
           ((case importNodes (statements sf) of [] \<Rightarrow> [] | (imp, endPos) # _ \<Rightarrow> [(imp_start imp, endPos)]) @ S) m'"
proof (cases "importNodes (statements sf)")
  case Nil
  with assms(1) have "m' = m \<or> (\<exists>t. m' = prepend t m)"
    by (auto simp: merge_imports_def Let_def split: if_splits)
  with assms(2) Nil show ?thesis
    by (auto simp: prepend_inv)
next
  case (Cons p ps)
  obtain imp endPos where p: "p = (imp, endPos)" by (cases p)
  from assms(1) Cons p have "merge_existing source imp endPos ns m = Inr m'"
    by (simp add: merge_imports_def)
  moreover from assms(3) Cons p have "imp_start imp \<le> endPos" by simp
  ultimately show ?thesis
    using merge_existing_inv [OF _ assms(2)] Cons p by simp
qed

text \<open>From the chunks to the pieces.\<close>

lemma chunk_pieces:
  assumes "chunk_inv src S c" "c_start c \<le> c_end c"
  shows "\<exists>ps. concat (map (\<lambda>p. snd (snd p)) ps) = chunk_toString c
            \<and> (\<forall>b. pieces_tile (c_start c) (ps @ qs) b = pieces_tile (c_end c) qs b)
            \<and> list_all (piece_ok src S) ps"
proof (cases "c_edited c")
  case True
  with assms show ?thesis
    by (intro exI [of _ "[(c_start c, c_end c, chunk_toString c)]"])
       (simp add: chunk_inv_def piece_ok_def)
next
  case False
  with assms show ?thesis
    by (intro exI [of _ "[(c_start c, c_end c, c_content c), (c_end c, c_end c, c_outro c)]"])
       (auto simp: chunk_inv_def piece_ok_def chunk_toString_def slice_def)
qed

lemma chunks_pieces:
  assumes "tiles a cs b" "list_all (chunk_inv src S) cs"
  shows "\<exists>ps. concat (map (\<lambda>p. snd (snd p)) ps) = concat (map chunk_toString cs)
            \<and> pieces_tile a ps b \<and> list_all (piece_ok src S) ps"
  using assms
proof (induction cs arbitrary: a)
  case Nil
  then show ?case by (intro exI [of _ "[]"]) simp
next
  case (Cons c cs)
  then have t: "tiles (c_end c) cs b" and ci: "chunk_inv src S c"
    and le: "c_start c \<le> c_end c" and st: "c_start c = a" and rest: "list_all (chunk_inv src S) cs"
    by auto
  from Cons.IH [OF t rest] obtain qs where
    qs: "concat (map (\<lambda>p. snd (snd p)) qs) = concat (map chunk_toString cs)"
      "pieces_tile (c_end c) qs b" "list_all (piece_ok src S) qs"
    by blast
  from chunk_pieces [OF ci le, of qs] obtain ps where
    ps: "concat (map (\<lambda>p. snd (snd p)) ps) = chunk_toString c"
      "\<forall>b. pieces_tile (c_start c) (ps @ qs) b = pieces_tile (c_end c) qs b"
      "list_all (piece_ok src S) ps"
    by blast
  show ?case
    using ps qs st by (intro exI [of _ "ps @ qs"]) simp
qed

text \<open>
  Claim C9. When \<^verbatim>\<open>transform\<close> returns code, the code is a text put before, then the
  original cut into pieces that follow one another from its first position to its last,
  then a text put after. Each piece either prints the original text of its positions or
  lies within the recorded span of an exported function or within the span of the first
  import declaration from electron (a piece of no width there is an insertion at a
  position of that span). So every position outside these spans keeps its character, in
  both contexts. The parser's guarantee that a declaration starts before it ends is
  assumed for the imports from electron.
\<close>

theorem transform_frame:
  assumes "transform ctx source file_id sf = Inr (ReturnCode out)"
    and "list_all (\<lambda>(imp, endPos). imp_start imp \<le> endPos) (importNodes (statements sf))"
  shows "\<exists>pre ps post.
           out = pre @ concat (map (\<lambda>p. snd (snd p)) ps) @ post
         \<and> pieces_tile 0 ps (length source)
         \<and> list_all (piece_ok source (edit_spans source sf)) ps"
proof -
  from assms(1) obtain m1 ns m where
    g: "generate_all ctx file_id (exportedFns source sf) (MagicString source, []) = Inr (m1, ns)"
    and mi: "merge_imports source sf ns m1 = Inr m" and out: "out = toString m"
    by (auto simp: transform_def Let_def split: if_splits sum.splits prod.splits)
  from generate_all_inv [OF g ms_inv_MagicString [of source "[]"]]
  have "ms_inv source (rev (map (\<lambda>fn. (fn_start fn, fn_end fn)) (exportedFns source sf)) @ []) m1" .
  from merge_imports_inv [OF mi this assms(2)]
  have "ms_inv source (edit_spans source sf) m"
    by (rule ms_inv_mono) (auto simp: edit_spans_def split: list.splits)
  then have "tiles 0 (ms_chunks m) (length source)"
    and "list_all (chunk_inv source (edit_spans source sf)) (ms_chunks m)"
    by (simp_all add: ms_inv_def)
  from chunks_pieces [OF this] obtain ps where
    ps: "concat (map (\<lambda>p. snd (snd p)) ps) = concat (map chunk_toString (ms_chunks m))"
      "pieces_tile 0 ps (length source)" "list_all (piece_ok source (edit_spans source sf)) ps"
    by blast
  show ?thesis
    using ps out
    by (intro exI [of _ "ms_intro m"] exI [of _ ps] exI [of _ "ms_outro m"]) (simp add: toString_def)
qed


text \<open>The definitions that a run of \<^verbatim>\<open>transform\<close> on a given file unfolds.\<close>

lemmas run_simps =
  transform_def exportedFns_def visit_node_def visit_function_def visit_declaration_def
  generate_fn_def isMainIpcFile_def isRendererIpcFile_def suffix_to_prefix
  merge_imports_def merge_existing_def MagicString_def overwrite_def ms_split_def new_chunk_def
  edit_range_def chunk_edit_def chunk_split_def toString_def chunk_toString_def prepend_def
  append_def appendLeft_def set_add_def slice_def is_electron_import_def Let_def
  eval_nat_numeral

lemmas regex_simps =
  curly_at_def default_at_def strip_prefix_def strip_quote_def spaces1_def is_space_def
  is_word_def is_digit_def digit_val_def trim_def replace_string_def replace_regex_def
  named_import_def existing_names_def dq_def sq_def nl_def

text \<open>The witness, in the renderer with the file \<^verbatim>\<open>/x/foo.main.ipc.ts\<close>: an import from
  \<^verbatim>\<open>fs\<close> and a constant, then an import from electron (positions 33..61) and an async
  function (positions 61..102, the line break before it included), then one more
  constant. The first import and the two constants lie in no span, and stand in
  the output as they were.\<close>

theorem transform_frame_witness:
  "transform CtxRenderer
        (''import fs from '' @ dq @ ''fs'' @ dq @ nl @ ''const k = 1;'' @ nl @ ''import {app} from '' @ dq @ ''electron'' @ dq @ nl @ ''export async function bar(x){return x+1}'' @ nl @ ''const z = 2;'')
        ''/x/foo.main.ipc.ts''
        \<lparr>statements =
          [Node (ImportDeclaration \<lparr>imp_start = 0, moduleSpecifierText = dq @ ''fs'' @ dq,
                                     namedBindings = None\<rparr>) [] 0 19 [],
           Node OtherNode [] 19 32 [],
           Node (ImportDeclaration \<lparr>imp_start = 33, moduleSpecifierText = dq @ ''electron'' @ dq,
                                     namedBindings = Some [''app'']\<rparr>) [] 32 61 [],
           Node (FunctionDeclaration (Some ''bar'')) [ExportKeyword, AsyncKeyword] 61 102 [],
           Node OtherNode [] 102 115 []]\<rparr>
     = Inr (ReturnCode (concat [
         ''import fs from '', dq, ''fs'', dq, nl, ''const k = 1;'', nl,
         ''import { app, ipcRenderer } from '', sq, ''electron'', sq,
         invoke_stub (channel_of ''/x/foo.main.ipc.ts''
             \<lparr>fn_name = ''bar'', fn_start = 61, fn_end = 102, isAsync = True,
              originalBodyCode = nl @ ''export async function bar(x){return x+1}'', isDefault = False\<rparr>) ''bar'',
         nl, ''const z = 2;'']))
   \<and> edit_spans
        (''import fs from '' @ dq @ ''fs'' @ dq @ nl @ ''const k = 1;'' @ nl @ ''import {app} from '' @ dq @ ''electron'' @ dq @ nl @ ''export async function bar(x){return x+1}'' @ nl @ ''const z = 2;'')
        \<lparr>statements =
          [Node (ImportDeclaration \<lparr>imp_start = 0, moduleSpecifierText = dq @ ''fs'' @ dq,
                                     namedBindings = None\<rparr>) [] 0 19 [],
           Node OtherNode [] 19 32 [],
           Node (ImportDeclaration \<lparr>imp_start = 33, moduleSpecifierText = dq @ ''electron'' @ dq,
                                     namedBindings = Some [''app'']\<rparr>) [] 32 61 [],
           Node (FunctionDeclaration (Some ''bar'')) [ExportKeyword, AsyncKeyword] 61 102 [],
           Node OtherNode [] 102 115 []]\<rparr> = [(61, 102), (33, 61)]
   \<and> (\<exists>pre ps post.
         (concat [
         ''import fs from '', dq, ''fs'', dq, nl, ''const k = 1;'', nl,
         ''import { app, ipcRenderer } from '', sq, ''electron'', sq,
         invoke_stub (channel_of ''/x/foo.main.ipc.ts''
             \<lparr>fn_name = ''bar'', fn_start = 61, fn_end = 102, isAsync = True,
              originalBodyCode = nl @ ''export async function bar(x){return x+1}'', isDefault = False\<rparr>) ''bar'',
         nl, ''const z = 2;'']) = pre @ concat (map (\<lambda>p. snd (snd p)) ps) @ post
       \<and> pieces_tile 0 ps 115
       \<and> list_all (piece_ok
            (''import fs from '' @ dq @ ''fs'' @ dq @ nl @ ''const k = 1;'' @ nl @ ''import {app} from '' @ dq @ ''electron'' @ dq @ nl @ ''export async function bar(x){return x+1}'' @ nl @ ''const z = 2;'')
            [(61, 102), (33, 61)]) ps)"
proof -
  let ?src = "(''import fs from '' @ dq @ ''fs'' @ dq @ nl @ ''const k = 1;'' @ nl @ ''import {app} from '' @ dq @ ''electron'' @ dq @ nl @ ''export async function bar(x){return x+1}'' @ nl @ ''const z = 2;'')"
  let ?sf = "\<lparr>statements =
          [Node (ImportDeclaration \<lparr>imp_start = 0, moduleSpecifierText = dq @ ''fs'' @ dq,
                                     namedBindings = None\<rparr>) [] 0 19 [],
           Node OtherNode [] 19 32 [],
           Node (ImportDeclaration \<lparr>imp_start = 33, moduleSpecifierText = dq @ ''electron'' @ dq,
                                     namedBindings = Some [''app'']\<rparr>) [] 32 61 [],
           Node (FunctionDeclaration (Some ''bar'')) [ExportKeyword, AsyncKeyword] 61 102 [],
           Node OtherNode [] 102 115 []]\<rparr>"
  let ?out = "(concat [
         ''import fs from '', dq, ''fs'', dq, nl, ''const k = 1;'', nl,
         ''import { app, ipcRenderer } from '', sq, ''electron'', sq,
         invoke_stub (channel_of ''/x/foo.main.ipc.ts''
             \<lparr>fn_name = ''bar'', fn_start = 61, fn_end = 102, isAsync = True,
              originalBodyCode = nl @ ''export async function bar(x){return x+1}'', isDefault = False\<rparr>) ''bar'',
         nl, ''const z = 2;''])"
  have t: "transform CtxRenderer ?src ''/x/foo.main.ipc.ts'' ?sf = Inr (ReturnCode ?out)"
    by (simp add: run_simps regex_simps)
  have wf: "list_all (\<lambda>(imp, endPos). imp_start imp \<le> endPos) (importNodes (statements ?sf))"
    by (simp add: is_electron_import_def dq_def)
  have sp: "edit_spans ?src ?sf = [(61, 102), (33, 61)]"
    by (simp add: edit_spans_def exportedFns_def visit_node_def visit_function_def
        is_electron_import_def dq_def)
  have len: "length ?src = 115"
    by (simp add: dq_def nl_def)
  from transform_frame [OF t wf] t sp len show ?thesis by simp
qed

subsection \<open>The import from electron, merged\<close>

text \<open>
  Claim C7, at two inputs.
  In main, the file \<^verbatim>\<open>a.main.ipc.ts\<close> has two imports from electron,
  \<^verbatim>\<open>import { app } from 'electron'\<close> and \<^verbatim>\<open>import { ipcMain } from 'electron'\<close>, and one
  exported function. The loop of lines 351-361 collects \<^verbatim>\<open>app\<close> and \<^verbatim>\<open>ipcMain\<close> in
  \<^verbatim>\<open>existingElectronImports\<close>, which nothing reads; the merge looks at the names of the
  first import only and adds \<^verbatim>\<open>ipcMain\<close> to it, so that the output imports \<^verbatim>\<open>ipcMain\<close>
  twice.
  The text \<^verbatim>\<open>import electron from 'electron'\<close>, merged with the needed name \<^verbatim>\<open>ipcMain\<close>,
  becomes \<^verbatim>\<open>import electron, { ipcMain } from 'electron'\<close>. Merged again, this text matches
  neither pattern of lines 370-372 and 393, and a second import of \<^verbatim>\<open>ipcMain\<close> is put
  after it: the second run changes the text and duplicates the name.
\<close>

theorem import_merge_duplicates:
  "transform CtxMain
        (''import { app } from '' @ sq @ ''electron'' @ sq @ nl @
         ''import { ipcMain } from '' @ sq @ ''electron'' @ sq @ nl @
         ''export function f(){}'')
        ''a.main.ipc.ts''
        \<lparr>statements =
          [Node (ImportDeclaration \<lparr>imp_start = 0, moduleSpecifierText = sq @ ''electron'' @ sq,
                                     namedBindings = Some [''app'']\<rparr>) [] 0 30 [],
           Node (ImportDeclaration \<lparr>imp_start = 31, moduleSpecifierText = sq @ ''electron'' @ sq,
                                     namedBindings = Some [''ipcMain'']\<rparr>) [] 30 65 [],
           Node (FunctionDeclaration (Some ''f'')) [ExportKeyword] 65 87 []]\<rparr>
     = Inr (ReturnCode (concat [
         ''import { app, ipcMain } from '', sq, ''electron'', sq, nl,
         ''import { ipcMain } from '', sq, ''electron'', sq, nl,
         ''export function f(){}'',
         main_on_code
           (channel_of ''a.main.ipc.ts''
              \<lparr>fn_name = ''f'', fn_start = 65, fn_end = 87, isAsync = False,
               originalBodyCode = nl @ ''export function f(){}'', isDefault = False\<rparr>) ''f'']))
   \<and> existingElectronImports
        [Node (ImportDeclaration \<lparr>imp_start = 0, moduleSpecifierText = sq @ ''electron'' @ sq,
                                   namedBindings = Some [''app'']\<rparr>) [] 0 30 [],
         Node (ImportDeclaration \<lparr>imp_start = 31, moduleSpecifierText = sq @ ''electron'' @ sq,
                                   namedBindings = Some [''ipcMain'']\<rparr>) [] 30 65 [],
         Node (FunctionDeclaration (Some ''f'')) [ExportKeyword] 65 87 []]
     = [''app'', ''ipcMain'']
   \<and> (case merge_imports (''import electron from '' @ sq @ ''electron'' @ sq)
           \<lparr>statements =
             [Node (ImportDeclaration \<lparr>imp_start = 0, moduleSpecifierText = sq @ ''electron'' @ sq,
                                        namedBindings = None\<rparr>) [] 0 31 []]\<rparr>
           [''ipcMain'']
           (MagicString (''import electron from '' @ sq @ ''electron'' @ sq)) of
      Inl e \<Rightarrow> False
    | Inr m \<Rightarrow> toString m = ''import electron, { ipcMain } from '' @ sq @ ''electron'' @ sq)
   \<and> (case merge_imports (''import electron, { ipcMain } from '' @ sq @ ''electron'' @ sq)
           \<lparr>statements =
             [Node (ImportDeclaration \<lparr>imp_start = 0, moduleSpecifierText = sq @ ''electron'' @ sq,
                                        namedBindings = Some [''ipcMain'']\<rparr>) [] 0 44 []]\<rparr>
           [''ipcMain'']
           (MagicString (''import electron, { ipcMain } from '' @ sq @ ''electron'' @ sq)) of
      Inl e \<Rightarrow> False
    | Inr m \<Rightarrow> toString m =
        ''import electron, { ipcMain } from '' @ sq @ ''electron'' @ sq @ nl @
        ''import { ipcMain } from '' @ sq @ ''electron'' @ sq @ '';'')"
  by (simp add: run_simps regex_simps existingElectronImports_def)

subsection \<open>Default exports and exported constants in the stub cells\<close>

text \<open>The digest of one more function text.\<close>

lemma hash_of_load:
  "createHashForText ''export default function load(x){return x}'' = ''702e53b43f80''"
  by code_simp

text \<open>
  Claim C8, at two inputs, both in the renderer with the file \<^verbatim>\<open>cfg.main.ipc.ts\<close>.
  The file \<^verbatim>\<open>export default function load(x){return x}\<close>: the output declares
  \<^verbatim>\<open>export function load(...args)\<close> and has no \<^verbatim>\<open>export default\<close>, so the module has no
  default export any more. The file \<^verbatim>\<open>export const f = (x) => x\<close>: only the arrow function
  is the recorded span, and the output reads \<^verbatim>\<open>export const f =\<close> followed by the
  declaration \<^verbatim>\<open>export function f(...args) {...}\<close>.
\<close>

theorem stub_drops_default_and_const:
  "(case transform CtxRenderer ''export default function load(x){return x}'' ''cfg.main.ipc.ts''
          \<lparr>statements =
            [Node (FunctionDeclaration (Some ''load'')) [ExportKeyword, DefaultKeyword] 0 41 []]\<rparr> of
      Inr (ReturnCode code) \<Rightarrow>
        code = concat [
        ''import { ipcRenderer } from '', sq, ''electron'', sq, '';'', nl,
        nl, ''    export function '', ''load'', ''(...args) {'',
        nl, ''      try {'',
        nl, ''        return ipcRenderer.sendSync('', dq, ''cfg.main.ipc.ts:default:702e53b43f80'', dq, '', ...args);'',
        nl, ''      } catch (err) {'',
        nl, ''        console.error('', dq, ''IPC sendSync error on channel: '', ''cfg.main.ipc.ts:default:702e53b43f80'', '':'', dq, '', err);'',
        nl, ''        return { error: err?.message };'',
        nl, ''      }'',
        nl, ''    }'']
        \<and> \<not> sublist ''export default'' code
    | _ \<Rightarrow> False)
   \<and> transform CtxRenderer ''export const f = (x) => x'' ''cfg.main.ipc.ts''
        \<lparr>statements =
          [Node (VariableStatement
                  [\<lparr>decl_name = Identifier ''f'',
                    decl_initializer = Some \<lparr>init_kind = ArrowFunction, init_modifiers = [],
                                             init_pos = 16, init_end = 25\<rparr>\<rparr>])
                [ExportKeyword] 0 25 [Node OtherNode [] 6 25 []]]\<rparr>
     = Inr (ReturnCode (concat [
        ''import { ipcRenderer } from '', sq, ''electron'', sq, '';'', nl,
        ''export const f ='',
        sendSync_stub
          (channel_of ''cfg.main.ipc.ts''
             \<lparr>fn_name = ''f'', fn_start = 16, fn_end = 25, isAsync = False,
              originalBodyCode = '' (x) => x'', isDefault = False\<rparr>) ''f'']))"
proof -
  have one: "transform CtxRenderer ''export default function load(x){return x}'' ''cfg.main.ipc.ts''
          \<lparr>statements =
            [Node (FunctionDeclaration (Some ''load'')) [ExportKeyword, DefaultKeyword] 0 41 []]\<rparr>
      = Inr (ReturnCode (concat [
        ''import { ipcRenderer } from '', sq, ''electron'', sq, '';'', nl,
        nl, ''    export function '', ''load'', ''(...args) {'',
        nl, ''      try {'',
        nl, ''        return ipcRenderer.sendSync('', dq, ''cfg.main.ipc.ts:default:702e53b43f80'', dq, '', ...args);'',
        nl, ''      } catch (err) {'',
        nl, ''        console.error('', dq, ''IPC sendSync error on channel: '', ''cfg.main.ipc.ts:default:702e53b43f80'', '':'', dq, '', err);'',
        nl, ''        return { error: err?.message };'',
        nl, ''      }'',
        nl, ''    }'']))"
    by (simp add: run_simps channel_of_def basename_def hash_of_load sendSync_stub_def)
  have two: "\<not> sublist ''export default'' (concat [
        ''import { ipcRenderer } from '', sq, ''electron'', sq, '';'', nl,
        nl, ''    export function '', ''load'', ''(...args) {'',
        nl, ''      try {'',
        nl, ''        return ipcRenderer.sendSync('', dq, ''cfg.main.ipc.ts:default:702e53b43f80'', dq, '', ...args);'',
        nl, ''      } catch (err) {'',
        nl, ''        console.error('', dq, ''IPC sendSync error on channel: '', ''cfg.main.ipc.ts:default:702e53b43f80'', '':'', dq, '', err);'',
        nl, ''        return { error: err?.message };'',
        nl, ''      }'',
        nl, ''    }''])"
    by code_simp
  have three: "transform CtxRenderer ''export const f = (x) => x'' ''cfg.main.ipc.ts''
        \<lparr>statements =
          [Node (VariableStatement
                  [\<lparr>decl_name = Identifier ''f'',
                    decl_initializer = Some \<lparr>init_kind = ArrowFunction, init_modifiers = [],
                                             init_pos = 16, init_end = 25\<rparr>\<rparr>])
                [ExportKeyword] 0 25 [Node OtherNode [] 6 25 []]]\<rparr>
     = Inr (ReturnCode (concat [
        ''import { ipcRenderer } from '', sq, ''electron'', sq, '';'', nl,
        ''export const f ='',
        sendSync_stub
          (channel_of ''cfg.main.ipc.ts''
             \<lparr>fn_name = ''f'', fn_start = 16, fn_end = 25, isAsync = False,
              originalBodyCode = '' (x) => x'', isDefault = False\<rparr>) ''f'']))"
    by (simp add: run_simps)
  from one two three show ?thesis by simp
qed

text \<open>
  Claim C10, at one input: in main, the file \<^verbatim>\<open>w.renderer.ipc.ts\<close> with the text
  \<^verbatim>\<open>export const ping = () => {}\<close>. The function is exported and not async; its recorded
  span is the arrow function alone (positions 19..28), and the template of lines 251-256
  is a whole declaration. The output reads \<^verbatim>\<open>export const ping =\<close> followed by
  \<^verbatim>\<open>export function ping(...args) {...}\<close>: no module to load, and no stub to call.
\<close>

theorem sync_broadcast_stub_after_export_const:
  "transform CtxMain ''export const ping = () => {}'' ''w.renderer.ipc.ts''
        \<lparr>statements =
          [Node (VariableStatement
                  [\<lparr>decl_name = Identifier ''ping'',
                    decl_initializer = Some \<lparr>init_kind = ArrowFunction, init_modifiers = [],
                                             init_pos = 19, init_end = 28\<rparr>\<rparr>])
                [ExportKeyword] 0 28 [Node OtherNode [] 6 28 []]]\<rparr>
     = Inr (ReturnCode (concat [
        ''import { webContents } from '', sq, ''electron'', sq, '';'', nl,
        ''export const ping ='',
        nl, ''    export function '', ''ping'', ''(...args) {'',
        nl, ''      const all = webContents.getAllWebContents();'',
        nl, ''      for (const wc of all) {'',
        nl, ''        wc.send('', dq,
          channel_of ''w.renderer.ipc.ts''
             \<lparr>fn_name = ''ping'', fn_start = 19, fn_end = 28, isAsync = False,
              originalBodyCode = '' () => {}'', isDefault = False\<rparr>,
          dq, '', ...args);'',
        nl, ''      }'',
        nl, ''    }'']))"
  by (simp add: run_simps broadcast_sync_stub_def)

subsection \<open>The four cells\<close>







































































end
